theory Spec2Isabelle
  imports Main "HOL-Library.Multiset"
begin

section \<open>Secure budget planner: authentication and encrypted ledger\<close>

text \<open>
  A shallow embedding of \<^verbatim>\<open>auth_manager.py\<close> (class \<^verbatim>\<open>AuthManager\<close>) and
  \<^verbatim>\<open>database.py\<close> (class \<^verbatim>\<open>BudgetDatabase\<close>).

  Conventions.
  \<^item> Python \<^verbatim>\<open>str\<close> and \<^verbatim>\<open>bytes\<close> values are \<open>string\<close>; a \<^verbatim>\<open>str\<close> is
    represented by its UTF-8 bytes, so \<^verbatim>\<open>.encode()\<close> and \<^verbatim>\<open>.decode()\<close> are the
    identity on the representation. (A \<^verbatim>\<open>UnicodeDecodeError\<close> needs a plaintext that
    is not UTF-8, which no ciphertext written by this program holds.)
  \<^item> A \<^verbatim>\<open>datetime\<close> is an \<open>int\<close>: microseconds on the clock that produced it
    (\<^verbatim>\<open>datetime.now()\<close> or \<^verbatim>\<open>datetime.utcnow()\<close>). Every clock reading and every
    random draw of the source is an explicit argument of the model.
  \<^item> An SQLite table is the list of its rows in rowid order; a nullable column is an
    \<open>option\<close>.
  \<^item> The third-party libraries (bcrypt, PyJWT, cryptography.fernet, \<^verbatim>\<open>str.lower\<close>)
    are not part of the repository. They are the fields of a record that every
    operation takes as its first argument; their outputs (hashes, tokens, ciphertexts)
    are opaque values of the type parameters \<open>'h\<close>, \<open>'t\<close>, \<open>'c\<close>.
\<close>

subsection \<open>Time\<close>

type_synonym timestamp = int

definition minutes :: "int \<Rightarrow> int" where
  "minutes n = n * 60000000"

definition hours :: "int \<Rightarrow> int" where
  "hours n = n * 3600000000"

subsection \<open>External libraries\<close>

record jwt_claims =
  c_user_id :: int
  c_username :: string
  c_exp :: timestamp

datatype jwt_error = ExpiredSignatureError | InvalidTokenError

record ('h, 't, 'c) crypto_lib =
  bcrypt_hashpw :: "string \<Rightarrow> string \<Rightarrow> 'h"
  bcrypt_checkpw :: "string \<Rightarrow> 'h \<Rightarrow> bool"
  jwt_encode :: "jwt_claims \<Rightarrow> string \<Rightarrow> 't"
  jwt_decode :: "'t \<Rightarrow> string \<Rightarrow> timestamp \<Rightarrow> jwt_error + jwt_claims"
  fernet_valid_key :: "string \<Rightarrow> bool"
  fernet_encrypt :: "string \<Rightarrow> string \<Rightarrow> string \<Rightarrow> 'c"
  fernet_decrypt :: "string \<Rightarrow> 'c \<Rightarrow> string option"
  str_lower :: "string \<Rightarrow> string"

text \<open>
  \<open>bcrypt_hashpw p salt\<close> is \<^verbatim>\<open>bcrypt.hashpw(p, salt)\<close> with the salt that
  \<^verbatim>\<open>bcrypt.gensalt()\<close> drew; \<open>jwt_encode c secret\<close> is
  \<^verbatim>\<open>jwt.encode(c, secret, algorithm='HS256')\<close>; \<open>jwt_decode t secret now\<close> is
  \<^verbatim>\<open>jwt.decode(t, secret, algorithms=['HS256'])\<close> run when the library's clock reads
  \<open>now\<close>, \<open>Inl\<close> the exception it raises (\<^verbatim>\<open>ExpiredSignatureError\<close>, or any other
  subclass of \<^verbatim>\<open>InvalidTokenError\<close>); \<open>fernet_encrypt key nonce p\<close> is
  \<^verbatim>\<open>Fernet(key).encrypt(p)\<close> with the IV and timestamp it drew, and
  \<open>fernet_decrypt key c\<close> is \<^verbatim>\<open>Fernet(key).decrypt(c)\<close>, \<open>None\<close> when it raises
  \<^verbatim>\<open>InvalidToken\<close>.
\<close>

subsection \<open>The users database\<close>

record 'h user =
  u_id :: int
  u_username :: string
  u_password_hash :: 'h
  u_email :: string
  u_security_question :: string
  u_security_answer_hash :: 'h
  u_created_at :: timestamp
  u_last_login :: "timestamp option"
  u_failed_attempts :: int
  u_locked_until :: "timestamp option"

record 't session =
  s_id :: int
  s_user_id :: int
  s_token :: 't
  s_expires_at :: timestamp

record ('h, 't) auth_db =
  users :: "'h user list"
  sessions :: "'t session list"

text \<open>The rowid SQLite gives to a row inserted into an \<^verbatim>\<open>INTEGER PRIMARY KEY\<close> table.\<close>

definition next_rowid :: "int list \<Rightarrow> int" where
  "next_rowid ids = (if ids = [] then 1 else fold max ids 0 + 1)"

text \<open>\<^verbatim>\<open>SELECT * FROM users WHERE username = ?\<close> followed by \<^verbatim>\<open>fetchone()\<close>.\<close>

definition select_user :: "('h, 't) auth_db \<Rightarrow> string \<Rightarrow> 'h user option" where
  "select_user db username = find (\<lambda>u. u_username u = username) (users db)"

text \<open>\<^verbatim>\<open>UPDATE users SET ... WHERE id = ?\<close>.\<close>

definition update_user :: "int \<Rightarrow> ('h user \<Rightarrow> 'h user) \<Rightarrow> ('h, 't) auth_db \<Rightarrow> ('h, 't) auth_db" where
  "update_user uid f db =
     db\<lparr>users := map (\<lambda>u. if u_id u = uid then f u else u) (users db)\<rparr>"

subsection \<open>AuthManager\<close>

record auth_manager =
  encryption_key :: string
  jwt_secret :: string

definition hash_password :: "('h, 't, 'c) crypto_lib \<Rightarrow> string \<Rightarrow> string \<Rightarrow> 'h" where
  "hash_password lib salt password = bcrypt_hashpw lib password salt"

definition verify_password :: "('h, 't, 'c) crypto_lib \<Rightarrow> string \<Rightarrow> 'h \<Rightarrow> bool" where
  "verify_password lib password password_hash = bcrypt_checkpw lib password password_hash"

text \<open>
  \<^verbatim>\<open>create_user\<close>: the two salts and the \<^verbatim>\<open>CURRENT_TIMESTAMP\<close> of the insert are
  arguments. The \<^verbatim>\<open>UNIQUE\<close> constraints on \<^verbatim>\<open>username\<close> and \<^verbatim>\<open>email\<close> raise
  \<^verbatim>\<open>IntegrityError\<close>, which the method turns into \<^verbatim>\<open>False\<close>.
\<close>

definition create_user ::
  "('h, 't, 'c) crypto_lib \<Rightarrow> string \<Rightarrow> string \<Rightarrow> timestamp \<Rightarrow> ('h, 't) auth_db \<Rightarrow>
   string \<Rightarrow> string \<Rightarrow> string \<Rightarrow> string \<Rightarrow> string \<Rightarrow> bool \<times> ('h, 't) auth_db" where
  "create_user lib salt1 salt2 now db username password email security_question security_answer =
     (let password_hash = hash_password lib salt1 password;
          answer_hash = hash_password lib salt2 (str_lower lib security_answer)
      in if \<exists>u \<in> set (users db). u_username u = username \<or> u_email u = email
         then (False, db)
         else (True, db\<lparr>users := users db @
                 [\<lparr>u_id = next_rowid (map u_id (users db)),
                   u_username = username,
                   u_password_hash = password_hash,
                   u_email = email,
                   u_security_question = security_question,
                   u_security_answer_hash = answer_hash,
                   u_created_at = now,
                   u_last_login = None,
                   u_failed_attempts = 0,
                   u_locked_until = None\<rparr>]\<rparr>))"

text \<open>
  \<^verbatim>\<open>login\<close> returns a pair \<^verbatim>\<open>(False, message)\<close> or \<^verbatim>\<open>(True, token)\<close>. It reads
  \<^verbatim>\<open>datetime.now()\<close> for the lock check (line 104) and again for the update it
  writes (line 115 or 132), and \<^verbatim>\<open>datetime.utcnow()\<close> for the expiry embedded in the
  token (line 138) and for the expiry of the session row (line 145).
\<close>

datatype 't login_result = Failure string | Success 't

record login_clock =
  now_check :: timestamp
  now_update :: timestamp
  utc_exp :: timestamp
  utc_row :: timestamp

definition is_locked :: "timestamp \<Rightarrow> 'h user \<Rightarrow> bool" where
  "is_locked now user =
     (case u_locked_until user of None \<Rightarrow> False | Some until \<Rightarrow> now < until)"

definition login ::
  "('h, 't, 'c) crypto_lib \<Rightarrow> auth_manager \<Rightarrow> login_clock \<Rightarrow> ('h, 't) auth_db \<Rightarrow>
   string \<Rightarrow> string \<Rightarrow> 't login_result \<times> ('h, 't) auth_db" where
  "login lib self clk db username password =
     (case select_user db username of
        None \<Rightarrow> (Failure ''Invalid username or password'', db)
      | Some user \<Rightarrow>
          if is_locked (now_check clk) user
          then (Failure ''Account is locked. Try again later.'', db)
          else if \<not> verify_password lib password (u_password_hash user)
          then
            (let failed_attempts = u_failed_attempts user + 1;
                 locked_until =
                   (if failed_attempts \<ge> 5 then Some (now_update clk + minutes 30) else None)
             in (Failure ''Invalid username or password'',
                 update_user (u_id user)
                   (\<lambda>u. u\<lparr>u_failed_attempts := failed_attempts, u_locked_until := locked_until\<rparr>)
                   db))
          else
            (let db1 = update_user (u_id user)
                   (\<lambda>u. u\<lparr>u_failed_attempts := 0, u_locked_until := None,
                          u_last_login := Some (now_update clk)\<rparr>) db;
                 token = jwt_encode lib
                   \<lparr>c_user_id = u_id user, c_username = u_username user,
                    c_exp = utc_exp clk + hours 24\<rparr> (jwt_secret self)
             in (Success token,
                 db1\<lparr>sessions := sessions db1 @
                   [\<lparr>s_id = next_rowid (map s_id (sessions db1)),
                     s_user_id = u_id user,
                     s_token = token,
                     s_expires_at = utc_row clk + hours 24\<rparr>]\<rparr>)))"

text \<open>
  \<^verbatim>\<open>verify_token\<close> returns \<^verbatim>\<open>(True, payload)\<close>, \<^verbatim>\<open>(False, None)\<close> or
  \<^verbatim>\<open>(False, message)\<close>. PyJWT reads its own clock (\<open>jwt_now\<close>); the query reads
  \<^verbatim>\<open>datetime.utcnow()\<close> (\<open>utc_now\<close>). \<^verbatim>\<open>ExpiredSignatureError\<close> is caught before
  its base class \<^verbatim>\<open>InvalidTokenError\<close>.
\<close>

datatype verify_result = Verified jwt_claims | Rejected "string option"

definition verify_token ::
  "('h, 't, 'c) crypto_lib \<Rightarrow> auth_manager \<Rightarrow> timestamp \<Rightarrow> timestamp \<Rightarrow> ('h, 't) auth_db \<Rightarrow>
   't \<Rightarrow> verify_result" where
  "verify_token lib self jwt_now utc_now db token =
     (case jwt_decode lib token (jwt_secret self) jwt_now of
        Inl ExpiredSignatureError \<Rightarrow> Rejected (Some ''Token has expired'')
      | Inl InvalidTokenError \<Rightarrow> Rejected (Some ''Invalid token'')
      | Inr payload \<Rightarrow>
          (case find (\<lambda>s. s_token s = token \<and> s_expires_at s > utc_now) (sessions db) of
             None \<Rightarrow> Rejected None
           | Some session \<Rightarrow> Verified payload))"

definition reset_password ::
  "('h, 't, 'c) crypto_lib \<Rightarrow> string \<Rightarrow> ('h, 't) auth_db \<Rightarrow> string \<Rightarrow> string \<Rightarrow> string \<Rightarrow>
   bool \<times> ('h, 't) auth_db" where
  "reset_password lib salt db username security_answer new_password =
     (case select_user db username of
        None \<Rightarrow> (False, db)
      | Some user \<Rightarrow>
          if \<not> verify_password lib (str_lower lib security_answer) (u_security_answer_hash user)
          then (False, db)
          else (let new_password_hash = hash_password lib salt new_password
                in (True, update_user (u_id user)
                            (\<lambda>u. u\<lparr>u_password_hash := new_password_hash\<rparr>) db)))"

datatype py_exception =
    ValueError string
  | InvalidToken
  | TypeError
  | AttributeError
  | SqliteError

definition encrypt_data :: "('h, 't, 'c) crypto_lib \<Rightarrow> auth_manager \<Rightarrow> string \<Rightarrow> string \<Rightarrow> 'c" where
  "encrypt_data lib self nonce data = fernet_encrypt lib (encryption_key self) nonce data"

definition decrypt_data ::
  "('h, 't, 'c) crypto_lib \<Rightarrow> auth_manager \<Rightarrow> 'c \<Rightarrow> py_exception + string" where
  "decrypt_data lib self encrypted_data =
     (case fernet_decrypt lib (encryption_key self) encrypted_data of
        None \<Rightarrow> Inl InvalidToken
      | Some data \<Rightarrow> Inr data)"

definition logout ::
  "('h, 't) auth_db \<Rightarrow> 't \<Rightarrow> bool \<times> ('h, 't) auth_db" where
  "logout db token = (True, db\<lparr>sessions := filter (\<lambda>s. s_token s \<noteq> token) (sessions db)\<rparr>)"

text \<open>
  \<^verbatim>\<open>__init__\<close>: \<open>key_file\<close> is the content of \<^verbatim>\<open>encryption.key\<close> (\<open>None\<close> when the
  file does not exist), \<open>env_secret\<close> the value of the environment variable
  \<^verbatim>\<open>JWT_SECRET\<close>, \<open>gen_key\<close> what \<^verbatim>\<open>Fernet.generate_key()\<close> draws and \<open>gen_secret\<close>
  what \<^verbatim>\<open>secrets.token_hex(32)\<close> draws. The key file is written before
  \<^verbatim>\<open>Fernet(key)\<close> checks the key, so the file is returned in both cases.
\<close>

definition auth_manager_init ::
  "('h, 't, 'c) crypto_lib \<Rightarrow> string option \<Rightarrow> string option \<Rightarrow> string \<Rightarrow> string \<Rightarrow>
   (py_exception + auth_manager) \<times> string option" where
  "auth_manager_init lib key_file env_secret gen_key gen_secret =
     (let key = (case key_file of None \<Rightarrow> gen_key | Some k \<Rightarrow> k)
      in (if \<not> fernet_valid_key lib key
          then Inl (ValueError ''Fernet key must be 32 url-safe base64-encoded bytes.'')
          else Inr \<lparr>encryption_key = key,
                    jwt_secret = (case env_secret of None \<Rightarrow> gen_secret | Some s \<Rightarrow> s)\<rparr>,
          Some key))"

subsection \<open>Values decoded from JSON, and the libraries of the ledger\<close>

text \<open>
  A Python \<^verbatim>\<open>float\<close> is a value of the type parameter \<open>'f\<close>: no claim depends on
  its arithmetic, only on printing and parsing it. \<open>'f json\<close> is what \<^verbatim>\<open>json.loads\<close>
  returns; the keys of a \<open>JObj\<close> are distinct, as those of a Python \<^verbatim>\<open>dict\<close> are.
  A \<^verbatim>\<open>date\<close> is its day number, whose order is the order of the ISO text SQLite
  stores and compares.
\<close>

type_synonym date = int

datatype 'f json =
    JNull
  | JBool bool
  | JInt int
  | JFloat 'f
  | JStr string
  | JArr "'f json list"
  | JObj "(string \<times> 'f json) list"

record 'f data_lib =
  float_str :: "'f \<Rightarrow> string"
  py_float :: "'f json \<Rightarrow> 'f option"
  json_loads :: "string \<Rightarrow> 'f json option"
  strptime_date :: "string \<Rightarrow> date option"
  sqlite_text :: "'f json \<Rightarrow> string option"

text \<open>
  \<open>float_str a\<close> is \<^verbatim>\<open>str(a)\<close>; \<open>py_float v\<close> is \<^verbatim>\<open>float(v)\<close>, \<open>json_loads s\<close> is
  \<^verbatim>\<open>json.loads(s)\<close> and \<open>strptime_date s\<close> is
  \<^verbatim>\<open>datetime.strptime(s, '%Y-%m-%d').date()\<close>, each \<open>None\<close> when the call raises;
  \<open>sqlite_text v\<close> is the text a \<^verbatim>\<open>TEXT NOT NULL\<close> column stores when \<open>v\<close> is bound
  to it, \<open>None\<close> when the insert raises (\<^verbatim>\<open>None\<close>, a list, a dict).
\<close>

text \<open>Truth value of a decoded value (\<^verbatim>\<open>if data['salary']:\<close>).\<close>

fun truthy :: "('f::zero) json \<Rightarrow> bool" where
  "truthy JNull = False"
| "truthy (JBool b) = b"
| "truthy (JInt i) = (i \<noteq> 0)"
| "truthy (JFloat x) = (x \<noteq> 0)"
| "truthy (JStr s) = (s \<noteq> [])"
| "truthy (JArr xs) = (xs \<noteq> [])"
| "truthy (JObj kvs) = (kvs \<noteq> [])"

text \<open>
  Subscription \<^verbatim>\<open>v[key]\<close> with a \<^verbatim>\<open>str\<close> key: \<open>None\<close> is \<^verbatim>\<open>KeyError\<close> on a dict
  and \<^verbatim>\<open>TypeError\<close> on anything else.
\<close>

fun json_get :: "'f json \<Rightarrow> string \<Rightarrow> 'f json option" where
  "json_get (JObj kvs) key = map_of kvs key"
| "json_get _ key = None"

text \<open>
  Iteration \<^verbatim>\<open>for trans in v\<close>: a list yields its items, a dict its keys, a
  \<^verbatim>\<open>str\<close> its characters; anything else raises \<^verbatim>\<open>TypeError\<close>.
\<close>

fun json_iter :: "'f json \<Rightarrow> 'f json list option" where
  "json_iter (JArr xs) = Some xs"
| "json_iter (JObj kvs) = Some (map (\<lambda>kv. JStr (fst kv)) kvs)"
| "json_iter (JStr s) = Some (map (\<lambda>c. JStr [c]) s)"
| "json_iter _ = None"

subsection \<open>The budget database\<close>

record 'c salary_row =
  sal_id :: int
  sal_user_id :: int
  sal_amount_encrypted :: 'c
  sal_updated_at :: timestamp

record 'c transaction_row =
  t_id :: int
  t_user_id :: int
  t_date :: date
  t_amount_encrypted :: 'c
  t_category :: string
  t_description_encrypted :: "'c option"
  t_created_at :: timestamp

record 'c budget_db =
  salary :: "'c salary_row list"
  transactions :: "'c transaction_row list"

text \<open>
  A \<^verbatim>\<open>BudgetDatabase\<close> holds the bound user id (\<^verbatim>\<open>None\<close> by default) and an
  \<^verbatim>\<open>AuthManager\<close> of its own. \<^verbatim>\<open>if not self.user_id\<close> holds for \<^verbatim>\<open>None\<close> and for 0.
\<close>

record budget_database =
  user_id :: "int option"
  auth_manager :: auth_manager

definition bound_user :: "budget_database \<Rightarrow> int option" where
  "bound_user self =
     (case user_id self of None \<Rightarrow> None | Some uid \<Rightarrow> if uid = 0 then None else Some uid)"

definition update_salary ::
  "('h, 't, 'c) crypto_lib \<Rightarrow> 'f data_lib \<Rightarrow> budget_database \<Rightarrow> string \<Rightarrow> timestamp \<Rightarrow>
   'c budget_db \<Rightarrow> 'f \<Rightarrow> py_exception + 'c budget_db" where
  "update_salary lib dlib self nonce now db amount =
     (case bound_user self of
        None \<Rightarrow> Inl (ValueError ''User not authenticated'')
      | Some uid \<Rightarrow>
          (let encrypted_amount = encrypt_data lib (auth_manager self) nonce (float_str dlib amount);
               kept = filter (\<lambda>r. sal_user_id r \<noteq> uid) (salary db)
           in Inr (db\<lparr>salary := kept @
                  [\<lparr>sal_id = next_rowid (map sal_id kept), sal_user_id = uid,
                    sal_amount_encrypted = encrypted_amount, sal_updated_at = now\<rparr>]\<rparr>)))"

text \<open>
  \<^verbatim>\<open>ORDER BY updated_at DESC LIMIT 1\<close>: SQL leaves the order of rows with equal keys
  open; the model keeps them in rowid order.
\<close>

definition get_salary ::
  "('h, 't, 'c) crypto_lib \<Rightarrow> ('f::zero) data_lib \<Rightarrow> budget_database \<Rightarrow> 'c budget_db \<Rightarrow>
   py_exception + 'f" where
  "get_salary lib dlib self db =
     (case bound_user self of
        None \<Rightarrow> Inl (ValueError ''User not authenticated'')
      | Some uid \<Rightarrow>
          (case sort_key (\<lambda>r. - sal_updated_at r) (filter (\<lambda>r. sal_user_id r = uid) (salary db)) of
             [] \<Rightarrow> Inr 0
           | result # _ \<Rightarrow>
               (case decrypt_data lib (auth_manager self) (sal_amount_encrypted result) of
                  Inl e \<Rightarrow> Inl e
                | Inr decrypted_amount \<Rightarrow>
                    (case py_float dlib (JStr decrypted_amount) of
                       None \<Rightarrow> Inl (ValueError ''could not convert string to float'')
                     | Some a \<Rightarrow> Inr a))))"

text \<open>
  \<^verbatim>\<open>add_transaction\<close>: \<open>category\<close> and \<open>description\<close> are Python values as they
  arrive (a \<^verbatim>\<open>str\<close> from the form, whatever the decoded backup holds on import).
  \<^verbatim>\<open>description.encode()\<close> raises \<^verbatim>\<open>AttributeError\<close> unless the description is a
  \<^verbatim>\<open>str\<close>. The default description is the empty \<^verbatim>\<open>str\<close>, \<open>JStr []\<close>.
\<close>

definition add_transaction ::
  "('h, 't, 'c) crypto_lib \<Rightarrow> 'f data_lib \<Rightarrow> budget_database \<Rightarrow> string \<Rightarrow> string \<Rightarrow> timestamp \<Rightarrow>
   'c budget_db \<Rightarrow> date \<Rightarrow> 'f \<Rightarrow> 'f json \<Rightarrow> 'f json \<Rightarrow> py_exception + 'c budget_db" where
  "add_transaction lib dlib self nonce1 nonce2 now db date amount category description =
     (case bound_user self of
        None \<Rightarrow> Inl (ValueError ''User not authenticated'')
      | Some uid \<Rightarrow>
          (let encrypted_amount = encrypt_data lib (auth_manager self) nonce1 (float_str dlib amount)
           in case description of
                JStr d \<Rightarrow>
                  (let encrypted_description = encrypt_data lib (auth_manager self) nonce2 d
                   in case sqlite_text dlib category of
                        None \<Rightarrow> Inl SqliteError
                      | Some cat \<Rightarrow>
                          Inr (db\<lparr>transactions := transactions db @
                            [\<lparr>t_id = next_rowid (map t_id (transactions db)),
                              t_user_id = uid,
                              t_date = date,
                              t_amount_encrypted = encrypted_amount,
                              t_category = cat,
                              t_description_encrypted = Some encrypted_description,
                              t_created_at = now\<rparr>]\<rparr>))
              | _ \<Rightarrow> Inl AttributeError))"

text \<open>
  \<^verbatim>\<open>get_transactions\<close>: the date filter is added to the query only when both dates
  are given (\<^verbatim>\<open>if start_date and end_date\<close>); \<^verbatim>\<open>BETWEEN\<close> is inclusive. Each
  returned item is \<^verbatim>\<open>dict(trans)\<close> with the keys \<^verbatim>\<open>amount\<close> and \<^verbatim>\<open>description\<close>
  added. Decrypting a \<^verbatim>\<open>NULL\<close> description raises \<^verbatim>\<open>TypeError\<close>.
\<close>

record ('c, 'f) transaction =
  t_row :: "'c transaction_row"
  amount :: 'f
  description :: string

definition in_range :: "date option \<Rightarrow> date option \<Rightarrow> date \<Rightarrow> bool" where
  "in_range start_date end_date d =
     (case start_date of
        None \<Rightarrow> True
      | Some s \<Rightarrow> (case end_date of None \<Rightarrow> True | Some e \<Rightarrow> s \<le> d \<and> d \<le> e))"

definition select_transactions ::
  "int \<Rightarrow> date option \<Rightarrow> date option \<Rightarrow> 'c budget_db \<Rightarrow> 'c transaction_row list" where
  "select_transactions uid start_date end_date db =
     sort_key (\<lambda>r. - t_date r)
       (filter (\<lambda>r. t_user_id r = uid \<and> in_range start_date end_date (t_date r)) (transactions db))"

fun decrypt_transactions ::
  "('h, 't, 'c) crypto_lib \<Rightarrow> 'f data_lib \<Rightarrow> auth_manager \<Rightarrow> 'c transaction_row list \<Rightarrow>
   py_exception + ('c, 'f) transaction list" where
  "decrypt_transactions lib dlib am [] = Inr []"
| "decrypt_transactions lib dlib am (row # rest) =
     (case decrypt_data lib am (t_amount_encrypted row) of
        Inl e \<Rightarrow> Inl e
      | Inr a_str \<Rightarrow>
          (case py_float dlib (JStr a_str) of
             None \<Rightarrow> Inl (ValueError ''could not convert string to float'')
           | Some a \<Rightarrow>
               (case t_description_encrypted row of
                  None \<Rightarrow> Inl TypeError
                | Some c \<Rightarrow>
                    (case decrypt_data lib am c of
                       Inl e \<Rightarrow> Inl e
                     | Inr d \<Rightarrow>
                         (case decrypt_transactions lib dlib am rest of
                            Inl e \<Rightarrow> Inl e
                          | Inr ts \<Rightarrow> Inr (\<lparr>t_row = row, amount = a, description = d\<rparr> # ts))))))"

definition get_transactions ::
  "('h, 't, 'c) crypto_lib \<Rightarrow> 'f data_lib \<Rightarrow> budget_database \<Rightarrow> 'c budget_db \<Rightarrow>
   date option \<Rightarrow> date option \<Rightarrow> py_exception + ('c, 'f) transaction list" where
  "get_transactions lib dlib self db start_date end_date =
     (case bound_user self of
        None \<Rightarrow> Inl (ValueError ''User not authenticated'')
      | Some uid \<Rightarrow>
          decrypt_transactions lib dlib (auth_manager self)
            (select_transactions uid start_date end_date db))"

text \<open>
  \<^verbatim>\<open>import_database\<close>: \<open>backups\<close> maps a path to the content of the file there.
  Everything raised inside the \<^verbatim>\<open>try\<close> block is caught and turned into \<^verbatim>\<open>False\<close>;
  the two \<^verbatim>\<open>DELETE\<close>s are committed before the salary and the transactions are
  re-inserted, each by a call that commits on its own. \<open>rnd\<close> and \<open>clock\<close> supply
  the nonces and the insert timestamps of those calls.
\<close>

fun import_transactions ::
  "('h, 't, 'c) crypto_lib \<Rightarrow> 'f data_lib \<Rightarrow> budget_database \<Rightarrow> (nat \<Rightarrow> string) \<Rightarrow>
   (nat \<Rightarrow> timestamp) \<Rightarrow> nat \<Rightarrow> 'c budget_db \<Rightarrow> 'f json list \<Rightarrow> bool \<times> 'c budget_db" where
  "import_transactions lib dlib self rnd clock k db [] = (True, db)"
| "import_transactions lib dlib self rnd clock k db (item # rest) =
     (case json_get item ''date'' of
        Some (JStr ds) \<Rightarrow>
          (case strptime_date dlib ds of
             None \<Rightarrow> (False, db)
           | Some d \<Rightarrow>
               (case json_get item ''amount'' of
                  None \<Rightarrow> (False, db)
                | Some av \<Rightarrow>
                    (case py_float dlib av of
                       None \<Rightarrow> (False, db)
                     | Some a \<Rightarrow>
                         (case json_get item ''category'' of
                            None \<Rightarrow> (False, db)
                          | Some cat \<Rightarrow>
                              (case json_get item ''description'' of
                                 None \<Rightarrow> (False, db)
                               | Some desc \<Rightarrow>
                                   (case add_transaction lib dlib self (rnd (2 * k + 1))
                                           (rnd (2 * k + 2)) (clock (k + 1)) db d a cat desc of
                                      Inl e \<Rightarrow> (False, db)
                                    | Inr db' \<Rightarrow>
                                        import_transactions lib dlib self rnd clock (Suc k) db' rest))))))
      | _ \<Rightarrow> (False, db))"

definition delete_user_data :: "int \<Rightarrow> 'c budget_db \<Rightarrow> 'c budget_db" where
  "delete_user_data uid db =
     db\<lparr>salary := filter (\<lambda>r. sal_user_id r \<noteq> uid) (salary db),
        transactions := filter (\<lambda>r. t_user_id r \<noteq> uid) (transactions db)\<rparr>"

definition import_salary ::
  "('h, 't, 'c) crypto_lib \<Rightarrow> ('f::zero) data_lib \<Rightarrow> budget_database \<Rightarrow> (nat \<Rightarrow> string) \<Rightarrow>
   (nat \<Rightarrow> timestamp) \<Rightarrow> 'c budget_db \<Rightarrow> 'f json \<Rightarrow> 'c budget_db option" where
  "import_salary lib dlib self rnd clock db sal =
     (if truthy sal
      then (case py_float dlib sal of
              None \<Rightarrow> None
            | Some a \<Rightarrow>
                (case update_salary lib dlib self (rnd 0) (clock 0) db a of
                   Inl e \<Rightarrow> None
                 | Inr db' \<Rightarrow> Some db'))
      else Some db)"

definition import_database ::
  "('h, 't, 'c) crypto_lib \<Rightarrow> ('f::zero) data_lib \<Rightarrow> budget_database \<Rightarrow> (nat \<Rightarrow> string) \<Rightarrow>
   (nat \<Rightarrow> timestamp) \<Rightarrow> (string \<rightharpoonup> 'c) \<Rightarrow> 'c budget_db \<Rightarrow> string \<Rightarrow>
   py_exception + bool \<times> 'c budget_db" where
  "import_database lib dlib self rnd clock backups db backup_path =
     (case bound_user self of
        None \<Rightarrow> Inl (ValueError ''User not authenticated'')
      | Some uid \<Rightarrow> Inr
          (case backups backup_path of
             None \<Rightarrow> (False, db)
           | Some encrypted_data \<Rightarrow>
               (case decrypt_data lib (auth_manager self) encrypted_data of
                  Inl e \<Rightarrow> (False, db)
                | Inr decrypted_data \<Rightarrow>
                    (case json_loads dlib decrypted_data of
                       None \<Rightarrow> (False, db)
                     | Some data \<Rightarrow>
                         (let db1 = delete_user_data uid db
                          in case json_get data ''salary'' of
                               None \<Rightarrow> (False, db1)
                             | Some sal \<Rightarrow>
                                 (case import_salary lib dlib self rnd clock db1 sal of
                                    None \<Rightarrow> (False, db1)
                                  | Some db2 \<Rightarrow>
                                      (case json_get data ''transactions'' of
                                         None \<Rightarrow> (False, db2)
                                       | Some txs \<Rightarrow>
                                           (case json_iter txs of
                                              None \<Rightarrow> (False, db2)
                                            | Some items \<Rightarrow>
                                                import_transactions lib dlib self rnd clock 0 db2
                                                  items))))))))"

subsection \<open>What the libraries promise\<close>

text \<open>
  The contracts the theorems below assume of the libraries, idealised as in symbolic
  protocol verification: a hash verifies against the password it was made from; a
  token decodes under the secret that signed it until its expiry (PyJWT keeps whole
  seconds of \<^verbatim>\<open>exp\<close>) and under no other secret; a Fernet ciphertext decrypts under
  the key that made it, and only ciphertexts made under a key decrypt under it;
  \<^verbatim>\<open>float(str(a))\<close> is \<open>a\<close>.
\<close>

definition bcrypt_ok :: "('h, 't, 'c) crypto_lib \<Rightarrow> bool" where
  "bcrypt_ok lib = (\<forall>p salt. bcrypt_checkpw lib p (bcrypt_hashpw lib p salt))"

definition whole_seconds :: "timestamp \<Rightarrow> timestamp" where
  "whole_seconds t = (t div 1000000) * 1000000"

definition jwt_ok :: "('h, 't, 'c) crypto_lib \<Rightarrow> bool" where
  "jwt_ok lib =
     (\<forall>c secret now.
        (now < whole_seconds (c_exp c) \<longrightarrow>
           jwt_decode lib (jwt_encode lib c secret) secret now =
             Inr (c\<lparr>c_exp := whole_seconds (c_exp c)\<rparr>)) \<and>
        (whole_seconds (c_exp c) + 1000000 \<le> now \<longrightarrow>
           jwt_decode lib (jwt_encode lib c secret) secret now = Inl ExpiredSignatureError) \<and>
        (\<forall>secret'. secret' \<noteq> secret \<longrightarrow>
           jwt_decode lib (jwt_encode lib c secret) secret' now = Inl InvalidTokenError))"

definition fernet_ok :: "('h, 't, 'c) crypto_lib \<Rightarrow> bool" where
  "fernet_ok lib =
     ((\<forall>k n p. fernet_decrypt lib k (fernet_encrypt lib k n p) = Some p) \<and>
      (\<forall>k c p. fernet_decrypt lib k c = Some p \<longrightarrow> (\<exists>n. c = fernet_encrypt lib k n p)) \<and>
      (\<forall>k k' n n' p p'. fernet_encrypt lib k n p = fernet_encrypt lib k' n' p' \<longrightarrow> k = k'))"

definition float_ok :: "'f data_lib \<Rightarrow> bool" where
  "float_ok dlib = (\<forall>a. py_float dlib (JStr (float_str dlib a)) = Some a)"

subsection \<open>An ideal instance of the libraries\<close>

text \<open>
  Perfect cryptography on symbolic values: a hash is the pair of salt and password, a
  token the pair of claims and secret, a ciphertext the triple of key, nonce and
  plaintext. Numbers are naturals printed in unary. The instance shows that the
  contracts can be met and evaluates the examples.
\<close>

definition ascii_lower :: "char \<Rightarrow> char" where
  "ascii_lower c =
     (case map_of (zip ''ABCDEFGHIJKLMNOPQRSTUVWXYZ'' ''abcdefghijklmnopqrstuvwxyz'') c of
        None \<Rightarrow> c
      | Some l \<Rightarrow> l)"

definition ideal_lib ::
  "(string \<times> string, jwt_claims \<times> string, string \<times> string \<times> string) crypto_lib" where
  "ideal_lib =
     \<lparr>bcrypt_hashpw = (\<lambda>p salt. (salt, p)),
      bcrypt_checkpw = (\<lambda>p h. snd h = p),
      jwt_encode = (\<lambda>c secret. (c, secret)),
      jwt_decode = (\<lambda>t secret now.
         if snd t \<noteq> secret then Inl InvalidTokenError
         else if whole_seconds (c_exp (fst t)) \<le> now then Inl ExpiredSignatureError
         else Inr ((fst t)\<lparr>c_exp := whole_seconds (c_exp (fst t))\<rparr>)),
      fernet_valid_key = (\<lambda>k. k \<noteq> []),
      fernet_encrypt = (\<lambda>k n p. (k, n, p)),
      fernet_decrypt = (\<lambda>k c. if fst c = k then Some (snd (snd c)) else None),
      str_lower = map ascii_lower\<rparr>"

definition ideal_data :: "nat data_lib" where
  "ideal_data =
     \<lparr>float_str = (\<lambda>n. replicate n CHR ''1''),
      py_float = (\<lambda>v. case v of
           JStr s \<Rightarrow> if s = replicate (length s) CHR ''1'' then Some (length s) else None
         | JInt i \<Rightarrow> if 0 \<le> i then Some (nat i) else None
         | JFloat x \<Rightarrow> Some x
         | JBool b \<Rightarrow> Some (if b then 1 else 0)
         | _ \<Rightarrow> None),
      json_loads = map_of
        [(''{salary: 3, transactions: []}'',
          JObj [(''salary'', JInt 3), (''transactions'', JArr [])]),
         (''{salary: 3, transactions: [{date: 2024-13-45}]}'',
          JObj [(''salary'', JInt 3),
                (''transactions'', JArr [JObj [(''date'', JStr ''2024-13-45'')]])])],
      strptime_date = map_of [(''2024-01-15'', 738900), (''2024-02-01'', 738917)],
      sqlite_text = (\<lambda>v. case v of JStr s \<Rightarrow> Some s | _ \<Rightarrow> None)\<rparr>"

subsection \<open>Runs\<close>

text \<open>A sequence of login attempts on one username, each with its clock readings.\<close>

fun login_attempts ::
  "('h, 't, 'c) crypto_lib \<Rightarrow> auth_manager \<Rightarrow> ('h, 't) auth_db \<Rightarrow> string \<Rightarrow>
   (login_clock \<times> string) list \<Rightarrow> 't login_result list \<times> ('h, 't) auth_db" where
  "login_attempts lib self db username [] = ([], db)"
| "login_attempts lib self db username (a # rest) =
     (case login lib self (fst a) db username (snd a) of
        (r, db') \<Rightarrow>
          (case login_attempts lib self db' username rest of
             (rs, db'') \<Rightarrow> (r # rs, db'')))"

text \<open>
  The budget databases that the operations of \<^verbatim>\<open>BudgetDatabase\<close> build from the
  empty tables, by instances bound to any user whose \<^verbatim>\<open>AuthManager\<close> loaded the key
  \<open>key\<close>.
\<close>

inductive ledger_state ::
  "('h, 't, 'c) crypto_lib \<Rightarrow> ('f::zero) data_lib \<Rightarrow> string \<Rightarrow> 'c budget_db \<Rightarrow> bool"
  for lib :: "('h, 't, 'c) crypto_lib" and dlib :: "('f::zero) data_lib" and key :: string where
  ls_init: "ledger_state lib dlib key \<lparr>salary = [], transactions = []\<rparr>"
| ls_salary:
    "ledger_state lib dlib key db \<Longrightarrow> encryption_key (auth_manager self) = key \<Longrightarrow>
     update_salary lib dlib self nonce now db a = Inr db' \<Longrightarrow> ledger_state lib dlib key db'"
| ls_add:
    "ledger_state lib dlib key db \<Longrightarrow> encryption_key (auth_manager self) = key \<Longrightarrow>
     add_transaction lib dlib self nonce1 nonce2 now db d a cat desc = Inr db' \<Longrightarrow>
     ledger_state lib dlib key db'"
| ls_import:
    "ledger_state lib dlib key db \<Longrightarrow> encryption_key (auth_manager self) = key \<Longrightarrow>
     import_database lib dlib self rnd clock backups db path = Inr (ok, db') \<Longrightarrow>
     ledger_state lib dlib key db'"

subsection \<open>Example values\<close>

definition example_manager :: auth_manager where
  "example_manager = \<lparr>encryption_key = ''k1'', jwt_secret = ''s1''\<rparr>"

definition example_alice :: "(string \<times> string) user" where
  "example_alice =
     \<lparr>u_id = 1, u_username = ''alice'', u_password_hash = (''salt1'', ''correct horse''),
      u_email = ''alice@example.org'', u_security_question = ''First pet?'',
      u_security_answer_hash = (''salt2'', ''rex''), u_created_at = 0, u_last_login = None,
      u_failed_attempts = 0, u_locked_until = None\<rparr>"

definition example_users :: "(string \<times> string, jwt_claims \<times> string) auth_db" where
  "example_users = \<lparr>users = [example_alice], sessions = []\<rparr>"

definition at_time :: "timestamp \<Rightarrow> login_clock" where
  "at_time t = \<lparr>now_check = t, now_update = t, utc_exp = t, utc_row = t\<rparr>"

definition example_ledger :: budget_database where
  "example_ledger = \<lparr>user_id = Some 1, auth_manager = example_manager\<rparr>"

definition example_budget :: "(string \<times> string \<times> string) budget_db" where
  "example_budget =
     \<lparr>salary = [],
      transactions =
        [\<lparr>t_id = 1, t_user_id = 1, t_date = 5, t_amount_encrypted = (''k1'', ''n1'', ''11''),
          t_category = ''Needs'', t_description_encrypted = Some (''k1'', ''n2'', ''rent''),
          t_created_at = 100\<rparr>,
         \<lparr>t_id = 2, t_user_id = 2, t_date = 7, t_amount_encrypted = (''k1'', ''n3'', ''1''),
          t_category = ''Wants'', t_description_encrypted = Some (''k1'', ''n4'', ''book''),
          t_created_at = 200\<rparr>,
         \<lparr>t_id = 3, t_user_id = 1, t_date = 20, t_amount_encrypted = (''k1'', ''n5'', ''111''),
          t_category = ''Savings'', t_description_encrypted = Some (''k1'', ''n6'', []),
          t_created_at = 300\<rparr>]\<rparr>"

text \<open>
  A transaction row whose amount is the encryption under \<open>key\<close> of a printed number and
  whose description is not null and is the encryption under \<open>key\<close> of a string.
\<close>

definition encrypted_row ::
  "('h, 't, 'c) crypto_lib \<Rightarrow> 'f data_lib \<Rightarrow> string \<Rightarrow> 'c transaction_row \<Rightarrow> bool" where
  "encrypted_row lib dlib key r =
     ((\<exists>n a. t_amount_encrypted r = fernet_encrypt lib key n (float_str dlib a)) \<and>
      (\<exists>n d. t_description_encrypted r = Some (fernet_encrypt lib key n d)))"

section \<open>Properties\<close>

subsection \<open>Login and lockout\<close>

lemma find_map_same:
  "(\<And>x. P (f x) = P x) \<Longrightarrow> find P (map f xs) = map_option f (find P xs)"
  by (induction xs) auto

lemma select_user_update_user:
  assumes "select_user db name = Some u" and "\<And>x. u_username (f x) = u_username x"
  shows "select_user (update_user (u_id u) f db) name = Some (f u)"
proof -
  let ?g = "\<lambda>x. if u_id x = u_id u then f x else x"
  have "find (\<lambda>x. u_username x = name) (map ?g (users db)) =
        map_option ?g (find (\<lambda>x. u_username x = name) (users db))"
    by (rule find_map_same) (simp add: assms(2))
  with assms(1) show ?thesis
    by (simp add: select_user_def update_user_def)
qed

lemma login_unknown:
  "select_user db name = None \<Longrightarrow>
   login lib self clk db name pw = (Failure ''Invalid username or password'', db)"
  by (simp add: login_def)

lemma login_locked:
  "select_user db name = Some u \<Longrightarrow> is_locked (now_check clk) u \<Longrightarrow>
   login lib self clk db name pw = (Failure ''Account is locked. Try again later.'', db)"
  by (simp add: login_def)

lemma login_wrong_password:
  "select_user db name = Some u \<Longrightarrow> \<not> is_locked (now_check clk) u \<Longrightarrow>
   \<not> verify_password lib pw (u_password_hash u) \<Longrightarrow>
   login lib self clk db name pw =
     (Failure ''Invalid username or password'',
      update_user (u_id u)
        (\<lambda>x. x\<lparr>u_failed_attempts := u_failed_attempts u + 1,
               u_locked_until := (if u_failed_attempts u + 1 \<ge> 5
                                  then Some (now_update clk + minutes 30) else None)\<rparr>) db)"
  by (simp add: login_def Let_def)

lemma select_user_sessions [simp]:
  "select_user (db\<lparr>sessions := ss\<rparr>) name = select_user db name"
  by (simp add: select_user_def)

lemma login_correct_password:
  assumes "select_user db name = Some u" and "\<not> is_locked (now_check clk) u"
    and "verify_password lib pw (u_password_hash u)"
  shows "\<exists>tok db'. login lib self clk db name pw = (Success tok, db') \<and>
           select_user db' name =
             Some (u\<lparr>u_failed_attempts := 0, u_locked_until := None,
                     u_last_login := Some (now_update clk)\<rparr>)"
  using assms select_user_update_user [OF assms(1), of "\<lambda>x. x\<lparr>u_failed_attempts := 0, u_locked_until := None,
                     u_last_login := Some (now_update clk)\<rparr>"]
  by (simp add: login_def Let_def)

lemma wrong_attempts_below_five:
  assumes "select_user db name = Some u" and "u_locked_until u = None"
    and "\<forall>a \<in> set as. \<not> verify_password lib (snd a) (u_password_hash u)"
    and "u_failed_attempts u + int (length as) < 5"
  shows "\<exists>db'. login_attempts lib self db name as =
           (replicate (length as) (Failure ''Invalid username or password''), db') \<and>
         select_user db' name =
           Some (u\<lparr>u_failed_attempts := u_failed_attempts u + int (length as)\<rparr>)"
  using assms
proof (induction as arbitrary: db u)
  case Nil
  then show ?case by simp
next
  case (Cons a as)
  let ?u = "u\<lparr>u_failed_attempts := u_failed_attempts u + 1, u_locked_until := None\<rparr>"
  let ?db = "update_user (u_id u) (\<lambda>x. x\<lparr>u_failed_attempts := u_failed_attempts u + 1, u_locked_until := None\<rparr>) db"
  have nl: "\<not> is_locked (now_check (fst a)) u"
    using Cons.prems(2) by (simp add: is_locked_def)
  have step: "login lib self (fst a) db name (snd a) = (Failure ''Invalid username or password'', ?db)"
    using login_wrong_password [OF Cons.prems(1) nl, of lib "snd a" self] Cons.prems(3,4)
    by simp
  have sel: "select_user ?db name = Some ?u"
    using select_user_update_user [OF Cons.prems(1)] by simp
  have "\<exists>db'. login_attempts lib self ?db name as =
           (replicate (length as) (Failure ''Invalid username or password''), db') \<and>
         select_user db' name =
           Some (?u\<lparr>u_failed_attempts := u_failed_attempts ?u + int (length as)\<rparr>)"
    using Cons.prems(3,4) by (intro Cons.IH [OF sel]) auto
  then obtain db' where
    "login_attempts lib self ?db name as =
           (replicate (length as) (Failure ''Invalid username or password''), db')"
    "select_user db' name =
           Some (?u\<lparr>u_failed_attempts := u_failed_attempts ?u + int (length as)\<rparr>)"
    by blast
  moreover have "?u\<lparr>u_failed_attempts := u_failed_attempts ?u + int (length as)\<rparr> =
     u\<lparr>u_failed_attempts := u_failed_attempts u + int (length (a # as))\<rparr>"
    using Cons.prems(2) by (cases u) (simp add: add.assoc)
  ultimately show ?case using step by simp
qed

lemma login_attempts_append:
  "login_attempts lib self db name (as @ bs) =
     (case login_attempts lib self db name as of
        (rs, db') \<Rightarrow>
          (case login_attempts lib self db' name bs of
             (rs', db'') \<Rightarrow> (rs @ rs', db'')))"
  by (induction as arbitrary: db) (auto split: prod.splits)

text \<open>
  Claim C1. A user whose failure counter is 0 and who is not locked makes five login
  attempts with wrong passwords. Each is answered "Invalid username or password"; the
  fifth sets \<open>locked_until\<close> to its clock reading plus 30 minutes. From then on, every
  login whose clock reading is before \<open>locked_until\<close> is answered "Account is locked",
  whatever the password, and leaves the database as it is (no attempt is counted);
  a login with the correct password at or after \<open>locked_until\<close> succeeds and leaves
  \<open>failed_attempts\<close> 0 and \<open>locked_until\<close> null.
\<close>

theorem lockout_after_five_failures:
  assumes "select_user db username = Some u"
    and "u_failed_attempts u = 0" and "u_locked_until u = None"
    and "length attempts = 4"
    and "\<forall>a \<in> set (attempts @ [(clk5, pw5)]). \<not> verify_password lib (snd a) (u_password_hash u)"
  shows "\<exists>db5.
     login_attempts lib self db username (attempts @ [(clk5, pw5)]) =
       (replicate 5 (Failure ''Invalid username or password''), db5) \<and>
     select_user db5 username =
       Some (u\<lparr>u_failed_attempts := 5, u_locked_until := Some (now_update clk5 + minutes 30)\<rparr>) \<and>
     (\<forall>clk pw. now_check clk < now_update clk5 + minutes 30 \<longrightarrow>
        login lib self clk db5 username pw = (Failure ''Account is locked. Try again later.'', db5)) \<and>
     (\<forall>clk pw. now_update clk5 + minutes 30 \<le> now_check clk \<and>
               verify_password lib pw (u_password_hash u) \<longrightarrow>
        (\<exists>tok db6. login lib self clk db5 username pw = (Success tok, db6) \<and>
           select_user db6 username =
             Some (u\<lparr>u_failed_attempts := 0, u_locked_until := None,
                     u_last_login := Some (now_update clk)\<rparr>)))"
proof -
  let ?msg = "Failure ''Invalid username or password''"
  let ?u4 = "u\<lparr>u_failed_attempts := u_failed_attempts u + int (length attempts)\<rparr>"
  let ?u5 = "u\<lparr>u_failed_attempts := 5, u_locked_until := Some (now_update clk5 + minutes 30)\<rparr>"
  have "\<exists>db4. login_attempts lib self db username attempts = (replicate (length attempts) ?msg, db4) \<and>
          select_user db4 username = Some ?u4"
    using assms by (intro wrong_attempts_below_five) auto
  then obtain db4 where
    run4: "login_attempts lib self db username attempts = (replicate 4 ?msg, db4)" and
    sel4: "select_user db4 username = Some ?u4"
    using assms(4) by auto
  let ?db5 = "update_user (u_id ?u4)
        (\<lambda>x. x\<lparr>u_failed_attempts := u_failed_attempts ?u4 + 1,
               u_locked_until := (if u_failed_attempts ?u4 + 1 \<ge> 5
                                  then Some (now_update clk5 + minutes 30) else None)\<rparr>) db4"
  have nl4: "\<not> is_locked (now_check clk5) ?u4"
    using assms(3) by (simp add: is_locked_def)
  have step5: "login lib self clk5 db4 username pw5 = (?msg, ?db5)"
    using assms(5) by (intro login_wrong_password [OF sel4 nl4]) simp
  have sel5: "select_user ?db5 username = Some ?u5"
    using select_user_update_user [OF sel4,
        of "\<lambda>x. x\<lparr>u_failed_attempts := u_failed_attempts ?u4 + 1,
               u_locked_until := (if u_failed_attempts ?u4 + 1 \<ge> 5
                                  then Some (now_update clk5 + minutes 30) else None)\<rparr>"]
      assms(2,4)
    by simp
  have run5: "login_attempts lib self db username (attempts @ [(clk5, pw5)]) = (replicate 5 ?msg, ?db5)"
    using run4 step5
    by (simp add: login_attempts_append replicate_append_same numeral_eq_Suc)
  have during: "login lib self clk ?db5 username pw =
                  (Failure ''Account is locked. Try again later.'', ?db5)"
    if "now_check clk < now_update clk5 + minutes 30" for clk pw
    using that by (intro login_locked [OF sel5]) (simp add: is_locked_def)
  have after: "\<exists>tok db6. login lib self clk ?db5 username pw = (Success tok, db6) \<and>
           select_user db6 username =
             Some (u\<lparr>u_failed_attempts := 0, u_locked_until := None,
                     u_last_login := Some (now_update clk)\<rparr>)"
    if "now_update clk5 + minutes 30 \<le> now_check clk"
      and "verify_password lib pw (u_password_hash u)" for clk pw
  proof -
    have "\<not> is_locked (now_check clk) ?u5"
      using that(1) by (simp add: is_locked_def)
    from login_correct_password [OF sel5 this, of lib pw self] that(2)
    show ?thesis by simp
  qed
  from run5 sel5 during after show ?thesis by blast
qed

theorem lockout_after_five_failures_witness:
  "\<exists>db5.
     login_attempts ideal_lib example_manager example_users ''alice''
       [(at_time 10, ''a''), (at_time 20, ''b''), (at_time 30, ''c''), (at_time 40, ''d''),
        (at_time 50, ''e'')] =
       (replicate 5 (Failure ''Invalid username or password''), db5) \<and>
     select_user db5 ''alice'' =
       Some (example_alice\<lparr>u_failed_attempts := 5, u_locked_until := Some (50 + minutes 30)\<rparr>) \<and>
     login ideal_lib example_manager (at_time 1800000049) db5 ''alice'' ''correct horse'' =
       (Failure ''Account is locked. Try again later.'', db5) \<and>
     (\<exists>tok db6. login ideal_lib example_manager (at_time 1800000050) db5 ''alice'' ''correct horse'' =
          (Success tok, db6) \<and>
        select_user db6 ''alice'' =
          Some (example_alice\<lparr>u_failed_attempts := 0, u_locked_until := None,
                  u_last_login := Some 1800000050\<rparr>))"
proof -
  have sel: "select_user example_users ''alice'' = Some example_alice"
    by (simp add: select_user_def example_users_def example_alice_def)
  have fresh: "u_failed_attempts example_alice = 0" "u_locked_until example_alice = None"
    by (simp_all add: example_alice_def)
  have len: "length [(at_time 10, ''a''), (at_time 20, ''b''), (at_time 30, ''c''), (at_time 40, ''d'')] = 4"
    by simp
  have wrong: "\<forall>a \<in> set ([(at_time 10, ''a''), (at_time 20, ''b''), (at_time 30, ''c''), (at_time 40, ''d'')] @ [(at_time 50, ''e'')]).
     \<not> verify_password ideal_lib (snd a) (u_password_hash example_alice)"
    by (simp add: verify_password_def ideal_lib_def example_alice_def)
  have good: "verify_password ideal_lib ''correct horse'' (u_password_hash example_alice)"
    by (simp add: verify_password_def ideal_lib_def example_alice_def)
  from lockout_after_five_failures [OF sel fresh len wrong, of example_manager]
  obtain db5 where
    a: "login_attempts ideal_lib example_manager example_users ''alice''
       ([(at_time 10, ''a''), (at_time 20, ''b''), (at_time 30, ''c''), (at_time 40, ''d'')] @
        [(at_time 50, ''e'')]) =
       (replicate 5 (Failure ''Invalid username or password''), db5)" and
    b: "select_user db5 ''alice'' =
       Some (example_alice\<lparr>u_failed_attempts := 5, u_locked_until := Some (now_update (at_time 50) + minutes 30)\<rparr>)" and
    c: "\<forall>clk pw. now_check clk < now_update (at_time 50) + minutes 30 \<longrightarrow>
        login ideal_lib example_manager clk db5 ''alice'' pw = (Failure ''Account is locked. Try again later.'', db5)" and
    d: "\<forall>clk pw. now_update (at_time 50) + minutes 30 \<le> now_check clk \<and>
               verify_password ideal_lib pw (u_password_hash example_alice) \<longrightarrow>
        (\<exists>tok db6. login ideal_lib example_manager clk db5 ''alice'' pw = (Success tok, db6) \<and>
           select_user db6 ''alice'' =
             Some (example_alice\<lparr>u_failed_attempts := 0, u_locked_until := None,
                     u_last_login := Some (now_update clk)\<rparr>))"
    by blast
  have c': "login ideal_lib example_manager (at_time 1800000049) db5 ''alice'' ''correct horse'' =
       (Failure ''Account is locked. Try again later.'', db5)"
    using c [rule_format, of "at_time 1800000049" "''correct horse''"]
    by (simp add: at_time_def minutes_def)
  have d': "\<exists>tok db6. login ideal_lib example_manager (at_time 1800000050) db5 ''alice'' ''correct horse'' =
          (Success tok, db6) \<and>
        select_user db6 ''alice'' =
          Some (example_alice\<lparr>u_failed_attempts := 0, u_locked_until := None,
                  u_last_login := Some 1800000050\<rparr>)"
    using d [rule_format, of "at_time 1800000050" "''correct horse''"] good
    by (simp add: at_time_def minutes_def)
  from a b c' d' show ?thesis
    by (simp add: at_time_def)
qed

subsection \<open>What a failed login tells the caller\<close>

text \<open>
  Claim C8. A login with a username that does not exist and a login with an existing,
  unlocked username and a wrong password return the same value, the failure with the
  message "Invalid username or password". A login on a locked account returns a
  different failure, "Account is locked. Try again later."; these are the only two
  failures, and the second is returned only for an existing, locked account.
\<close>

theorem login_failures_indistinguishable:
  assumes "select_user db unknown = None"
    and "select_user db known = Some u"
    and "\<not> is_locked (now_check clk') u"
    and "\<not> verify_password lib pw' (u_password_hash u)"
  shows "fst (login lib self clk db unknown pw) = Failure ''Invalid username or password'' \<and>
         fst (login lib self clk' db known pw') = fst (login lib self clk db unknown pw) \<and>
         (\<forall>name v c p. select_user db name = Some v \<and> is_locked (now_check c) v \<longrightarrow>
            fst (login lib self c db name p) = Failure ''Account is locked. Try again later.'' \<and>
            fst (login lib self c db name p) \<noteq> fst (login lib self clk db unknown pw)) \<and>
         (\<forall>name c p m. fst (login lib self c db name p) = Failure m \<longrightarrow>
            m = ''Invalid username or password'' \<or>
            m = ''Account is locked. Try again later.'' \<and>
            (\<exists>v. select_user db name = Some v \<and> is_locked (now_check c) v))"
proof -
  have a: "fst (login lib self clk db unknown pw) = Failure ''Invalid username or password''"
    using assms(1) by (simp add: login_unknown)
  have b: "fst (login lib self clk' db known pw') = Failure ''Invalid username or password''"
    by (simp add: login_wrong_password [OF assms(2,3,4)])
  have c: "fst (login lib self c db name p) = Failure ''Account is locked. Try again later.''"
    if "select_user db name = Some v" "is_locked (now_check c) v" for name v c p
    by (simp add: login_locked [OF that])
  have d: "m = ''Invalid username or password'' \<or>
            m = ''Account is locked. Try again later.'' \<and>
            (\<exists>v. select_user db name = Some v \<and> is_locked (now_check c) v)"
    if "fst (login lib self c db name p) = Failure m" for name c p m
    using that by (auto simp: login_def Let_def split: option.splits if_splits)
  show ?thesis
    using a b c d by (simp (no_asm_simp))
qed

theorem login_failures_indistinguishable_witness:
  "fst (login ideal_lib example_manager (at_time 10) example_users ''bob'' ''correct horse'') =
     Failure ''Invalid username or password'' \<and>
   fst (login ideal_lib example_manager (at_time 10) example_users ''alice'' ''wrong'') =
     fst (login ideal_lib example_manager (at_time 10) example_users ''bob'' ''correct horse'')"
proof -
  have "select_user example_users ''bob'' = None"
    by (simp add: select_user_def example_users_def example_alice_def)
  moreover have "select_user example_users ''alice'' = Some example_alice"
    by (simp add: select_user_def example_users_def example_alice_def)
  moreover have "\<not> is_locked (now_check (at_time 10)) example_alice"
    by (simp add: is_locked_def example_alice_def)
  moreover have "\<not> verify_password ideal_lib ''wrong'' (u_password_hash example_alice)"
    by (simp add: verify_password_def ideal_lib_def example_alice_def)
  ultimately show ?thesis
    using login_failures_indistinguishable [of example_users "''bob''" "''alice''" example_alice
        "at_time 10" ideal_lib "''wrong''" example_manager "at_time 10" "''correct horse''"]
    by simp
qed

subsection \<open>Password reset\<close>

lemma find_append_new:
  "\<forall>y \<in> set xs. \<not> P y \<Longrightarrow> P x \<Longrightarrow> find P (xs @ [x]) = Some x"
  by (induction xs) auto

lemma create_user_registers:
  assumes "create_user lib salt1 salt2 now db0 name pw em q ans = (True, db)"
  shows "\<exists>v. select_user db name = Some v \<and>
           u_password_hash v = hash_password lib salt1 pw \<and>
           u_security_answer_hash v = hash_password lib salt2 (str_lower lib ans) \<and>
           u_failed_attempts v = 0 \<and> u_locked_until v = None"
proof -
  have none: "\<forall>y \<in> set (users db0). \<not> u_username y = name"
    using assms by (auto simp: create_user_def Let_def split: if_splits)
  show ?thesis
    using assms find_append_new [OF none]
    by (auto simp: create_user_def Let_def select_user_def split: if_splits)
qed

lemma update_user_lockout:
  assumes "\<And>x. u_failed_attempts (f x) = u_failed_attempts x"
    and "\<And>x. u_locked_until (f x) = u_locked_until x"
  shows "map u_failed_attempts (users (update_user uid f db)) = map u_failed_attempts (users db)"
    and "map u_locked_until (users (update_user uid f db)) = map u_locked_until (users db)"
  using assms by (simp_all add: update_user_def)

lemma reset_password_lockout:
  "map u_failed_attempts (users (snd (reset_password lib salt db name attempt new))) =
     map u_failed_attempts (users db) \<and>
   map u_locked_until (users (snd (reset_password lib salt db name attempt new))) =
     map u_locked_until (users db)"
  by (simp add: reset_password_def Let_def update_user_lockout split: option.splits)

text \<open>
  Claim C6. The answer is lower-cased before it is hashed at registration and before
  it is checked at reset. For a user registered with the answer \<open>answer\<close>: a reset
  with any attempt that lower-cases to the same string succeeds and replaces the
  password hash only (no current password is asked for, and the new password then
  verifies); a reset whose attempt does not verify returns \<^verbatim>\<open>False\<close> and leaves the
  database, hence the old password, as it was; and no reset, successful or not, for
  any username, changes \<open>failed_attempts\<close> or \<open>locked_until\<close> of any user.
\<close>

theorem reset_password_by_security_answer:
  assumes "bcrypt_ok lib"
    and "select_user db username = Some u"
    and "u_security_answer_hash u = hash_password lib salt2 (str_lower lib answer)"
  shows "(\<forall>attempt salt new. str_lower lib attempt = str_lower lib answer \<longrightarrow>
            (\<exists>db'. reset_password lib salt db username attempt new = (True, db') \<and>
               select_user db' username = Some (u\<lparr>u_password_hash := hash_password lib salt new\<rparr>) \<and>
               verify_password lib new (hash_password lib salt new))) \<and>
         (\<forall>attempt salt new.
            \<not> verify_password lib (str_lower lib attempt) (u_security_answer_hash u) \<longrightarrow>
            reset_password lib salt db username attempt new = (False, db)) \<and>
         (\<forall>name attempt salt new.
            map u_failed_attempts (users (snd (reset_password lib salt db name attempt new))) =
              map u_failed_attempts (users db) \<and>
            map u_locked_until (users (snd (reset_password lib salt db name attempt new))) =
              map u_locked_until (users db)) \<and>
         (\<forall>s1 s2 now db0 name pw em q ans db1.
            create_user lib s1 s2 now db0 name pw em q ans = (True, db1) \<longrightarrow>
            (\<exists>v. select_user db1 name = Some v \<and>
               u_security_answer_hash v = hash_password lib s2 (str_lower lib ans)))"
proof -
  have ok: "verify_password lib p (hash_password lib s p)" for p s
    using assms(1) by (simp add: bcrypt_ok_def verify_password_def hash_password_def)
  have a: "\<exists>db'. reset_password lib salt db username attempt new = (True, db') \<and>
               select_user db' username = Some (u\<lparr>u_password_hash := hash_password lib salt new\<rparr>) \<and>
               verify_password lib new (hash_password lib salt new)"
    if "str_lower lib attempt = str_lower lib answer" for attempt salt new
  proof -
    have "verify_password lib (str_lower lib attempt) (u_security_answer_hash u)"
      using that assms(3) ok by simp
    then have "reset_password lib salt db username attempt new =
        (True, update_user (u_id u) (\<lambda>x. x\<lparr>u_password_hash := hash_password lib salt new\<rparr>) db)"
      using assms(2) by (simp add: reset_password_def Let_def)
    moreover have "select_user (update_user (u_id u) (\<lambda>x. x\<lparr>u_password_hash := hash_password lib salt new\<rparr>) db) username =
        Some (u\<lparr>u_password_hash := hash_password lib salt new\<rparr>)"
      using select_user_update_user [OF assms(2)] by simp
    ultimately show ?thesis using ok by simp
  qed
  have b: "reset_password lib salt db username attempt new = (False, db)"
    if "\<not> verify_password lib (str_lower lib attempt) (u_security_answer_hash u)"
    for attempt salt new
    using that assms(2) by (simp add: reset_password_def)
  have d: "\<exists>v. select_user db1 name = Some v \<and>
               u_security_answer_hash v = hash_password lib s2 (str_lower lib ans)"
    if "create_user lib s1 s2 now db0 name pw em q ans = (True, db1)"
    for s1 s2 now db0 name pw em q ans db1
    using create_user_registers [OF that] by blast
  have c: "map u_failed_attempts (users (snd (reset_password lib salt db name attempt new))) =
              map u_failed_attempts (users db) \<and>
            map u_locked_until (users (snd (reset_password lib salt db name attempt new))) =
              map u_locked_until (users db)" for name attempt salt new
    by (rule reset_password_lockout)
  show ?thesis
  proof (intro conjI allI impI)
    fix attempt salt new
    assume "str_lower lib attempt = str_lower lib answer"
    then show "\<exists>db'. reset_password lib salt db username attempt new = (True, db') \<and>
               select_user db' username = Some (u\<lparr>u_password_hash := hash_password lib salt new\<rparr>) \<and>
               verify_password lib new (hash_password lib salt new)"
      by (rule a)
  next
    fix attempt salt new
    assume "\<not> verify_password lib (str_lower lib attempt) (u_security_answer_hash u)"
    then show "reset_password lib salt db username attempt new = (False, db)"
      by (rule b)
  next
    fix s1 s2 now db0 name pw em q ans db1
    assume "create_user lib s1 s2 now db0 name pw em q ans = (True, db1)"
    then show "\<exists>v. select_user db1 name = Some v \<and>
               u_security_answer_hash v = hash_password lib s2 (str_lower lib ans)"
      by (rule d)
  qed (simp_all add: c)
qed

theorem reset_password_by_security_answer_witness:
  "\<exists>db1 db2.
     create_user ideal_lib ''salt1'' ''salt2'' 0 \<lparr>users = [], sessions = []\<rparr>
       ''alice'' ''correct horse'' ''alice@example.org'' ''First pet?'' ''Rex'' = (True, db1) \<and>
     reset_password ideal_lib ''salt3'' db1 ''alice'' ''rEX'' ''new password'' = (True, db2) \<and>
     map u_failed_attempts (users db2) = map u_failed_attempts (users db1) \<and>
     map u_locked_until (users db2) = map u_locked_until (users db1) \<and>
     reset_password ideal_lib ''salt3'' db1 ''alice'' ''Max'' ''new password'' = (False, db1)"
proof -
  let ?db1 = "\<lparr>users = [example_alice], sessions = []\<rparr> :: (string \<times> string, jwt_claims \<times> string) auth_db"
  have low: "str_lower ideal_lib ''rEX'' = str_lower ideal_lib ''Rex''"
    "str_lower ideal_lib ''Rex'' = ''rex''" "str_lower ideal_lib ''Max'' = ''max''"
    by (simp_all add: ideal_lib_def ascii_lower_def)
  have reg: "create_user ideal_lib ''salt1'' ''salt2'' 0 \<lparr>users = [], sessions = []\<rparr>
       ''alice'' ''correct horse'' ''alice@example.org'' ''First pet?'' ''Rex'' = (True, ?db1)"
    using low(2) by (simp add: create_user_def example_alice_def hash_password_def next_rowid_def ideal_lib_def)
  have ok: "bcrypt_ok ideal_lib"
    by (simp add: bcrypt_ok_def ideal_lib_def)
  have sel: "select_user ?db1 ''alice'' = Some example_alice"
    by (simp add: select_user_def example_alice_def)
  have ans: "u_security_answer_hash example_alice = hash_password ideal_lib ''salt2'' (str_lower ideal_lib ''Rex'')"
    using low(2) by (simp add: example_alice_def hash_password_def ideal_lib_def)
  have bad: "\<not> verify_password ideal_lib (str_lower ideal_lib ''Max'') (u_security_answer_hash example_alice)"
    using low(3) by (simp add: verify_password_def example_alice_def ideal_lib_def)
  note inst = reset_password_by_security_answer [OF ok sel ans]
  from inst [THEN conjunct1, rule_format, OF low(1), of "''salt3''" "''new password''"]
  obtain db2 where
    r: "reset_password ideal_lib ''salt3'' ?db1 ''alice'' ''rEX'' ''new password'' = (True, db2)"
    by auto
  from inst [THEN conjunct2, THEN conjunct2, THEN conjunct1, rule_format,
      of "''salt3''" "''alice''" "''rEX''" "''new password''"] r
  have l: "map u_failed_attempts (users db2) = map u_failed_attempts (users ?db1)"
    "map u_locked_until (users db2) = map u_locked_until (users ?db1)"
    by simp_all
  from inst [THEN conjunct2, THEN conjunct1, rule_format, OF bad, of "''salt3''" "''new password''"]
  have f: "reset_password ideal_lib ''salt3'' ?db1 ''alice'' ''Max'' ''new password'' = (False, ?db1)" .
  from reg r l f show ?thesis by (intro exI [of _ ?db1] exI [of _ db2]) simp
qed

subsection \<open>Session tokens\<close>

lemma login_success_session:
  assumes "login lib self clk db name pw = (Success tok, db')"
  shows "\<exists>u. select_user db name = Some u \<and>
           tok = jwt_encode lib \<lparr>c_user_id = u_id u, c_username = name,
                   c_exp = utc_exp clk + hours 24\<rparr> (jwt_secret self) \<and>
           (\<exists>s \<in> set (sessions db'). s_token s = tok \<and> s_user_id s = u_id u \<and>
              s_expires_at s = utc_row clk + hours 24)"
proof (cases "select_user db name")
  case None
  with assms show ?thesis by (simp add: login_def)
next
  case (Some u)
  then have "u_username u = name"
    by (auto simp: select_user_def find_Some_iff)
  with assms Some show ?thesis
    by (auto simp: login_def Let_def split: if_splits)
qed

lemma verify_token_Verified:
  assumes "verify_token lib self jn un db tok = Verified p"
  shows "jwt_decode lib tok (jwt_secret self) jn = Inr p \<and>
         (\<exists>s \<in> set (sessions db). s_token s = tok \<and> un < s_expires_at s)"
proof -
  from assms obtain s where
    "jwt_decode lib tok (jwt_secret self) jn = Inr p"
    "find (\<lambda>s. s_token s = tok \<and> s_expires_at s > un) (sessions db) = Some s"
    by (auto simp: verify_token_def split: sum.splits jwt_error.splits option.splits)
  then show ?thesis
    by (auto simp: find_Some_iff)
qed

lemma verify_token_accepts:
  assumes "jwt_decode lib tok (jwt_secret self) jn = Inr p"
    and "s \<in> set (sessions db)" and "s_token s = tok" and "un < s_expires_at s"
  shows "verify_token lib self jn un db tok = Verified p"
proof -
  have "find (\<lambda>s. s_token s = tok \<and> s_expires_at s > un) (sessions db) \<noteq> None"
    using assms(2,3,4) by (auto simp: find_None_iff)
  with assms(1) show ?thesis
    by (auto simp: verify_token_def)
qed

lemma verify_token_after_logout:
  assumes "jwt_decode lib tok (jwt_secret self) jn = Inr p"
  shows "verify_token lib self jn un (snd (logout db tok)) tok = Rejected None"
proof -
  have "find (\<lambda>s. s_token s = tok \<and> s_expires_at s > un)
          (filter (\<lambda>s. s_token s \<noteq> tok) (sessions db)) = None"
    by (auto simp: find_None_iff)
  with assms show ?thesis
    by (simp add: verify_token_def logout_def)
qed

text \<open>
  Claim C2. \<^verbatim>\<open>verify_token\<close> accepts a token only when PyJWT accepts it under the
  instance's secret and a session row holds that exact token with \<open>expires_at\<close> in the
  future. With a JWT library that keeps its contract, the token a login returns is
  accepted while neither expiry has passed; it is rejected as "Token has expired" once
  the embedded expiry has passed; a token PyJWT finds invalid is rejected as "Invalid
  token"; and after \<^verbatim>\<open>logout\<close> (which returns \<^verbatim>\<open>True\<close>) the token is rejected with
  \<^verbatim>\<open>(False, None)\<close> although its embedded expiry has not passed.
\<close>

theorem verify_token_checks_signature_and_session:
  assumes "jwt_ok lib"
  shows
    "(\<forall>db jn un tok p. verify_token lib self jn un db tok = Verified p \<longrightarrow>
        jwt_decode lib tok (jwt_secret self) jn = Inr p \<and>
        (\<exists>s \<in> set (sessions db). s_token s = tok \<and> un < s_expires_at s)) \<and>
     (\<forall>clk db name pw tok db' jn un.
        login lib self clk db name pw = (Success tok, db') \<and>
        jn < whole_seconds (utc_exp clk + hours 24) \<and> un < utc_row clk + hours 24 \<longrightarrow>
        (\<exists>p. verify_token lib self jn un db' tok = Verified p \<and> c_username p = name)) \<and>
     (\<forall>clk db name pw tok db' jn un dbx.
        login lib self clk db name pw = (Success tok, db') \<and>
        whole_seconds (utc_exp clk + hours 24) + 1000000 \<le> jn \<longrightarrow>
        verify_token lib self jn un dbx tok = Rejected (Some ''Token has expired'')) \<and>
     (\<forall>db jn un tok. jwt_decode lib tok (jwt_secret self) jn = Inl ExpiredSignatureError \<longrightarrow>
        verify_token lib self jn un db tok = Rejected (Some ''Token has expired'')) \<and>
     (\<forall>db jn un tok. jwt_decode lib tok (jwt_secret self) jn = Inl InvalidTokenError \<longrightarrow>
        verify_token lib self jn un db tok = Rejected (Some ''Invalid token'')) \<and>
     (\<forall>clk db name pw tok db' jn un.
        login lib self clk db name pw = (Success tok, db') \<and>
        jn < whole_seconds (utc_exp clk + hours 24) \<longrightarrow>
        fst (logout db' tok) = True \<and>
        verify_token lib self jn un (snd (logout db' tok)) tok = Rejected None)"
proof (intro conjI allI impI; (elim conjE)?)
  fix db jn un tok p
  assume "verify_token lib self jn un db tok = Verified p"
  then show "jwt_decode lib tok (jwt_secret self) jn = Inr p"
    and "\<exists>s \<in> set (sessions db). s_token s = tok \<and> un < s_expires_at s"
    by (simp_all add: verify_token_Verified)
next
  fix clk db name pw tok db' jn un
  assume l: "login lib self clk db name pw = (Success tok, db')"
    and j: "jn < whole_seconds (utc_exp clk + hours 24)" and r: "un < utc_row clk + hours 24"
  from login_success_session [OF l] obtain u s where
    "select_user db name = Some u" and
    tok: "tok = jwt_encode lib \<lparr>c_user_id = u_id u, c_username = name,
                   c_exp = utc_exp clk + hours 24\<rparr> (jwt_secret self)" and
    s: "s \<in> set (sessions db')" "s_token s = tok" "s_expires_at s = utc_row clk + hours 24"
    by blast
  let ?c = "\<lparr>c_user_id = u_id u, c_username = name, c_exp = utc_exp clk + hours 24\<rparr>"
  have "jwt_decode lib tok (jwt_secret self) jn = Inr (?c\<lparr>c_exp := whole_seconds (c_exp ?c)\<rparr>)"
    using assms j unfolding jwt_ok_def tok by simp
  from verify_token_accepts [OF this s(1,2)] r s(3)
  show "\<exists>p. verify_token lib self jn un db' tok = Verified p \<and> c_username p = name"
    by simp
next
  fix clk db name pw tok db' jn un dbx
  assume l: "login lib self clk db name pw = (Success tok, db')"
    and j: "whole_seconds (utc_exp clk + hours 24) + 1000000 \<le> jn"
  from login_success_session [OF l] obtain u where
    "select_user db name = Some u" and
    tok: "tok = jwt_encode lib \<lparr>c_user_id = u_id u, c_username = name,
                   c_exp = utc_exp clk + hours 24\<rparr> (jwt_secret self)"
    by blast
  have "jwt_decode lib tok (jwt_secret self) jn = Inl ExpiredSignatureError"
    using assms j unfolding jwt_ok_def tok by simp
  then show "verify_token lib self jn un dbx tok = Rejected (Some ''Token has expired'')"
    by (simp add: verify_token_def)
next
  fix db jn un tok
  assume "jwt_decode lib tok (jwt_secret self) jn = Inl ExpiredSignatureError"
  then show "verify_token lib self jn un db tok = Rejected (Some ''Token has expired'')"
    by (simp add: verify_token_def)
next
  fix db jn un tok
  assume "jwt_decode lib tok (jwt_secret self) jn = Inl InvalidTokenError"
  then show "verify_token lib self jn un db tok = Rejected (Some ''Invalid token'')"
    by (simp add: verify_token_def)
next
  fix clk db name pw tok db' jn un
  assume l: "login lib self clk db name pw = (Success tok, db')"
    and j: "jn < whole_seconds (utc_exp clk + hours 24)"
  show "fst (logout db' tok) = True"
    by (simp add: logout_def)
  from login_success_session [OF l] obtain u where
    "select_user db name = Some u" and
    tok: "tok = jwt_encode lib \<lparr>c_user_id = u_id u, c_username = name,
                   c_exp = utc_exp clk + hours 24\<rparr> (jwt_secret self)"
    by blast
  let ?c = "\<lparr>c_user_id = u_id u, c_username = name, c_exp = utc_exp clk + hours 24\<rparr>"
  have "jwt_decode lib tok (jwt_secret self) jn = Inr (?c\<lparr>c_exp := whole_seconds (c_exp ?c)\<rparr>)"
    using assms j unfolding jwt_ok_def tok by simp
  then show "verify_token lib self jn un (snd (logout db' tok)) tok = Rejected None"
    by (rule verify_token_after_logout)
qed

lemma ideal_jwt_ok: "jwt_ok ideal_lib"
  by (simp add: jwt_ok_def ideal_lib_def)


theorem verify_token_checks_signature_and_session_witness:
  "\<exists>tok db'.
     login ideal_lib example_manager (at_time 10) example_users ''alice'' ''correct horse'' =
       (Success tok, db') \<and>
     (\<exists>p. verify_token ideal_lib example_manager 20 20 db' tok = Verified p \<and>
          c_username p = ''alice'') \<and>
     fst (logout db' tok) = True \<and>
     verify_token ideal_lib example_manager 20 20 (snd (logout db' tok)) tok = Rejected None \<and>
     verify_token ideal_lib example_manager 86401000000 20 db' tok =
       Rejected (Some ''Token has expired'')"
proof -
  have "\<exists>tok db'. login ideal_lib example_manager (at_time 10) example_users ''alice''
          ''correct horse'' = (Success tok, db')"
    by (simp add: login_def select_user_def example_users_def example_alice_def is_locked_def
        verify_password_def ideal_lib_def Let_def)
  then obtain tok db' where
    l: "login ideal_lib example_manager (at_time 10) example_users ''alice'' ''correct horse'' =
          (Success tok, db')"
    by blast
  have t: "jn < whole_seconds (utc_exp (at_time 10) + hours 24) \<longleftrightarrow> jn < 86400000000"
    "whole_seconds (utc_exp (at_time 10) + hours 24) + 1000000 \<le> jn \<longleftrightarrow> 86401000000 \<le> jn"
    "un < utc_row (at_time 10) + hours 24 \<longleftrightarrow> un < 86400000010" for jn un
    by (simp_all add: whole_seconds_def at_time_def hours_def)
  note inst = verify_token_checks_signature_and_session [OF ideal_jwt_ok, of example_manager]
  have a: "\<exists>p. verify_token ideal_lib example_manager 20 20 db' tok = Verified p \<and>
          c_username p = ''alice''"
    using inst [THEN conjunct2, THEN conjunct1, rule_format, of "at_time 10" example_users
        "''alice''" "''correct horse''" tok db' 20 20] l
    by (simp add: t)
  have b: "verify_token ideal_lib example_manager 86401000000 20 db' tok =
       Rejected (Some ''Token has expired'')"
    using inst [THEN conjunct2, THEN conjunct2, THEN conjunct1, rule_format, of "at_time 10"
        example_users "''alice''" "''correct horse''" tok db' 86401000000 20 db'] l
    by (simp add: t)
  have c: "fst (logout db' tok) = True \<and>
     verify_token ideal_lib example_manager 20 20 (snd (logout db' tok)) tok = Rejected None"
    using inst [THEN conjunct2, THEN conjunct2, THEN conjunct2, THEN conjunct2, THEN conjunct2,
        rule_format, of "at_time 10" example_users "''alice''" "''correct horse''" tok db' 20 20] l
    by (simp add: t)
  from l a b c show ?thesis by blast
qed

subsection \<open>Encryption of data\<close>

lemma decrypt_encrypt:
  "fernet_ok lib \<Longrightarrow> encryption_key a = encryption_key b \<Longrightarrow>
   decrypt_data lib a (encrypt_data lib b nonce x) = Inr x"
  by (simp add: fernet_ok_def decrypt_data_def encrypt_data_def)

lemma decrypt_genuine_only:
  assumes "fernet_ok lib" and "decrypt_data lib a c = Inr p"
  shows "\<exists>n. c = encrypt_data lib a n p"
proof -
  from assms(2) have "fernet_decrypt lib (encryption_key a) c = Some p"
    by (simp add: decrypt_data_def split: option.splits)
  with assms(1) show ?thesis
    unfolding fernet_ok_def encrypt_data_def by blast
qed

lemma decrypt_data_cases:
  "decrypt_data lib a c = Inl InvalidToken \<or> (\<exists>p. decrypt_data lib a c = Inr p)"
  by (simp add: decrypt_data_def split: option.splits)

lemma decrypt_other_key:
  assumes "fernet_ok lib" and "encryption_key other \<noteq> encryption_key self"
  shows "decrypt_data lib other (encrypt_data lib self nonce x) = Inl InvalidToken"
proof -
  have "decrypt_data lib other (encrypt_data lib self nonce x) \<noteq> Inr p" for p
  proof
    assume "decrypt_data lib other (encrypt_data lib self nonce x) = Inr p"
    from decrypt_genuine_only [OF assms(1) this] obtain n where
      "encrypt_data lib self nonce x = encrypt_data lib other n p" ..
    with assms(1) have "encryption_key self = encryption_key other"
      unfolding fernet_ok_def encrypt_data_def by blast
    with assms(2) show False by simp
  qed
  with decrypt_data_cases [of lib other "encrypt_data lib self nonce x"] show ?thesis
    by blast
qed

text \<open>
  Claim C3. With a Fernet that keeps its contract, decrypting what was encrypted under
  the same key gives the payload back, the empty payload included; decrypting under a
  different key raises \<^verbatim>\<open>InvalidToken\<close>; and so does decrypting any ciphertext that
  encryption under the key did not produce (a tampered one): no data is returned.
\<close>

theorem decrypt_encrypt_roundtrip:
  assumes "fernet_ok lib"
  shows "decrypt_data lib self (encrypt_data lib self nonce x) = Inr x \<and>
         decrypt_data lib self (encrypt_data lib self nonce []) = Inr [] \<and>
         (\<forall>other. encryption_key other \<noteq> encryption_key self \<longrightarrow>
            decrypt_data lib other (encrypt_data lib self nonce x) = Inl InvalidToken) \<and>
         (\<forall>c. (\<forall>n p. c \<noteq> encrypt_data lib self n p) \<longrightarrow>
            decrypt_data lib self c = Inl InvalidToken)"
proof (intro conjI allI impI)
  show "decrypt_data lib self (encrypt_data lib self nonce x) = Inr x"
    and "decrypt_data lib self (encrypt_data lib self nonce []) = Inr []"
    using assms by (simp_all add: decrypt_encrypt)
next
  fix other :: auth_manager
  assume "encryption_key other \<noteq> encryption_key self"
  with assms show "decrypt_data lib other (encrypt_data lib self nonce x) = Inl InvalidToken"
    by (rule decrypt_other_key)
next
  fix c
  assume "\<forall>n p. c \<noteq> encrypt_data lib self n p"
  with decrypt_genuine_only [OF assms, of self c] decrypt_data_cases [of lib self c]
  show "decrypt_data lib self c = Inl InvalidToken"
    by blast
qed

lemma ideal_fernet_ok: "fernet_ok ideal_lib"
  by (auto simp: fernet_ok_def ideal_lib_def)

theorem decrypt_encrypt_roundtrip_witness:
  "decrypt_data ideal_lib example_manager (encrypt_data ideal_lib example_manager ''n1'' ''1234.56'') =
     Inr ''1234.56'' \<and>
   decrypt_data ideal_lib example_manager (encrypt_data ideal_lib example_manager ''n1'' []) = Inr [] \<and>
   decrypt_data ideal_lib \<lparr>encryption_key = ''k2'', jwt_secret = ''s1''\<rparr>
     (encrypt_data ideal_lib example_manager ''n1'' ''1234.56'') = Inl InvalidToken \<and>
   decrypt_data ideal_lib example_manager (''k2'', ''n1'', ''1234.56'') = Inl InvalidToken"
proof -
  note inst = decrypt_encrypt_roundtrip [OF ideal_fernet_ok, of example_manager "''n1''" "''1234.56''"]
  have k: "encryption_key \<lparr>encryption_key = ''k2'', jwt_secret = ''s1''\<rparr> \<noteq> encryption_key example_manager"
    by (simp add: example_manager_def)
  have t: "\<forall>n p. (''k2'', ''n1'', ''1234.56'') \<noteq> encrypt_data ideal_lib example_manager n p"
    by (simp add: encrypt_data_def ideal_lib_def example_manager_def)
  from inst [THEN conjunct1] inst [THEN conjunct2, THEN conjunct1]
    inst [THEN conjunct2, THEN conjunct2, THEN conjunct1, rule_format, OF k]
    inst [THEN conjunct2, THEN conjunct2, THEN conjunct2, THEN spec, THEN mp, OF t]
  show ?thesis by simp
qed

subsection \<open>Two instances\<close>

text \<open>
  Claim C9. Two \<^verbatim>\<open>AuthManager\<close> instances are constructed one after the other with
  \<^verbatim>\<open>JWT_SECRET\<close> unset; the second finds the key file the first left. Each takes the
  secret it drew as its signing secret, and both hold the same encryption key. When
  the two draws differ, a token that a login on one instance returns is rejected by
  the other as "Invalid token", while each decrypts what the other encrypted.
\<close>

theorem independent_instances:
  assumes "jwt_ok lib" and "fernet_ok lib"
    and "auth_manager_init lib key_file0 None gen_key1 gen_secret1 = (Inr a1, key_file1)"
    and "auth_manager_init lib key_file1 None gen_key2 gen_secret2 = (Inr a2, key_file2)"
    and "gen_secret1 \<noteq> gen_secret2"
  shows "jwt_secret a1 = gen_secret1 \<and> jwt_secret a2 = gen_secret2 \<and>
         encryption_key a1 = encryption_key a2 \<and>
         (\<forall>clk db name pw tok db' jn un dbx.
            login lib a1 clk db name pw = (Success tok, db') \<longrightarrow>
            verify_token lib a2 jn un dbx tok = Rejected (Some ''Invalid token'')) \<and>
         (\<forall>clk db name pw tok db' jn un dbx.
            login lib a2 clk db name pw = (Success tok, db') \<longrightarrow>
            verify_token lib a1 jn un dbx tok = Rejected (Some ''Invalid token'')) \<and>
         (\<forall>nonce x. decrypt_data lib a2 (encrypt_data lib a1 nonce x) = Inr x \<and>
                    decrypt_data lib a1 (encrypt_data lib a2 nonce x) = Inr x)"
proof -
  have s1: "jwt_secret a1 = gen_secret1" and s2: "jwt_secret a2 = gen_secret2"
    and k: "encryption_key a1 = encryption_key a2"
    using assms(3,4)
    by (auto simp: auth_manager_init_def Let_def split: if_splits option.splits)
  have cross: "verify_token lib b jn un dbx tok = Rejected (Some ''Invalid token'')"
    if "login lib a clk db name pw = (Success tok, db')" and "jwt_secret b \<noteq> jwt_secret a"
    for a b :: auth_manager and clk db name pw tok db' jn un dbx
  proof -
    from login_success_session [OF that(1)] obtain u where
      "select_user db name = Some u" and
      tok: "tok = jwt_encode lib \<lparr>c_user_id = u_id u, c_username = name,
                   c_exp = utc_exp clk + hours 24\<rparr> (jwt_secret a)"
      by blast
    have "jwt_decode lib tok (jwt_secret b) jn = Inl InvalidTokenError"
      using assms(1) that(2) unfolding jwt_ok_def tok by simp
    then show ?thesis by (simp add: verify_token_def)
  qed
  show ?thesis
    using s1 s2 k assms(2,5) cross [of a1 _ _ _ _ _ _ a2] cross [of a2 _ _ _ _ _ _ a1]
    by (simp add: decrypt_encrypt)
qed

theorem independent_instances_witness:
  "\<exists>a1 a2 tok db'.
     auth_manager_init ideal_lib None None ''k1'' ''s1'' = (Inr a1, Some ''k1'') \<and>
     auth_manager_init ideal_lib (Some ''k1'') None ''k2'' ''s2'' = (Inr a2, Some ''k1'') \<and>
     login ideal_lib a1 (at_time 10) example_users ''alice'' ''correct horse'' = (Success tok, db') \<and>
     verify_token ideal_lib a2 20 20 db' tok = Rejected (Some ''Invalid token'') \<and>
     decrypt_data ideal_lib a2 (encrypt_data ideal_lib a1 ''n1'' ''1234.56'') = Inr ''1234.56''"
proof -
  let ?a1 = "\<lparr>encryption_key = ''k1'', jwt_secret = ''s1''\<rparr>"
  let ?a2 = "\<lparr>encryption_key = ''k1'', jwt_secret = ''s2''\<rparr>"
  have i1: "auth_manager_init ideal_lib None None ''k1'' ''s1'' = (Inr ?a1, Some ''k1'')"
    and i2: "auth_manager_init ideal_lib (Some ''k1'') None ''k2'' ''s2'' = (Inr ?a2, Some ''k1'')"
    by (simp_all add: auth_manager_init_def ideal_lib_def Let_def)
  have d: "''s1'' \<noteq> ''s2''" by simp
  have "\<exists>tok db'. login ideal_lib ?a1 (at_time 10) example_users ''alice''
          ''correct horse'' = (Success tok, db')"
    by (simp add: login_def select_user_def example_users_def example_alice_def is_locked_def
        verify_password_def ideal_lib_def Let_def)
  then obtain tok db' where
    l: "login ideal_lib ?a1 (at_time 10) example_users ''alice'' ''correct horse'' =
          (Success tok, db')"
    by blast
  note inst = independent_instances [OF ideal_jwt_ok ideal_fernet_ok i1 i2 d]
  from inst [THEN conjunct2, THEN conjunct2, THEN conjunct2, THEN conjunct1, rule_format, OF l,
      of 20 20 db']
    inst [THEN conjunct2, THEN conjunct2, THEN conjunct2, THEN conjunct2, THEN conjunct2,
      rule_format, THEN conjunct1, of "''n1''" "''1234.56''"]
    i1 i2 l
  show ?thesis by blast
qed

subsection \<open>Salary\<close>

lemma get_salary_no_record:
  "bound_user self = Some uid \<Longrightarrow> filter (\<lambda>r. sal_user_id r = uid) (salary db) = [] \<Longrightarrow>
   get_salary lib dlib self db = Inr 0"
  by (simp add: get_salary_def)

lemma filter_filter_neg: "filter P (filter (\<lambda>x. \<not> P x) xs) = []"
  by (induction xs) auto

lemma update_salary_rows:
  assumes "bound_user self = Some uid"
  shows "\<exists>db' row. update_salary lib dlib self nonce now db a = Inr db' \<and>
           filter (\<lambda>r. sal_user_id r = uid) (salary db') = [row] \<and>
           sal_amount_encrypted row =
             encrypt_data lib (auth_manager self) nonce (float_str dlib a) \<and>
           filter (\<lambda>r. sal_user_id r \<noteq> uid) (salary db') =
             filter (\<lambda>r. sal_user_id r \<noteq> uid) (salary db) \<and>
           transactions db' = transactions db"
  using assms filter_filter_neg [of "\<lambda>r. sal_user_id r = uid" "salary db"]
  by (simp add: update_salary_def Let_def)

text \<open>
  Claim C5. For a bound user, \<^verbatim>\<open>get_salary\<close> returns 0 when the user has no salary
  row. \<^verbatim>\<open>update_salary(a)\<close> replaces the user's rows by one row (the rows of other
  users stay), and \<^verbatim>\<open>get_salary\<close> then returns \<open>a\<close> itself, given that Fernet
  decrypts what it encrypted and that \<^verbatim>\<open>float(str(a))\<close> is \<open>a\<close>.
\<close>

theorem salary_roundtrip:
  assumes "fernet_ok lib" and "float_ok dlib" and "bound_user self = Some uid"
  shows "(filter (\<lambda>r. sal_user_id r = uid) (salary db) = [] \<longrightarrow>
            get_salary lib dlib self db = Inr 0) \<and>
         (\<forall>nonce now a. \<exists>db'.
            update_salary lib dlib self nonce now db a = Inr db' \<and>
            get_salary lib dlib self db' = Inr a \<and>
            length (filter (\<lambda>r. sal_user_id r = uid) (salary db')) = 1 \<and>
            filter (\<lambda>r. sal_user_id r \<noteq> uid) (salary db') =
              filter (\<lambda>r. sal_user_id r \<noteq> uid) (salary db))"
proof (intro conjI allI impI)
  assume "filter (\<lambda>r. sal_user_id r = uid) (salary db) = []"
  with assms(3) show "get_salary lib dlib self db = Inr 0"
    by (rule get_salary_no_record)
next
  fix nonce now a
  from update_salary_rows [OF assms(3), of lib dlib nonce now db a] obtain db' row where
    u: "update_salary lib dlib self nonce now db a = Inr db'" and
    r: "filter (\<lambda>r. sal_user_id r = uid) (salary db') = [row]" and
    c: "sal_amount_encrypted row = encrypt_data lib (auth_manager self) nonce (float_str dlib a)" and
    o: "filter (\<lambda>r. sal_user_id r \<noteq> uid) (salary db') =
             filter (\<lambda>r. sal_user_id r \<noteq> uid) (salary db)"
    by blast
  have d: "decrypt_data lib (auth_manager self) (sal_amount_encrypted row) = Inr (float_str dlib a)"
    using assms(1) c by (simp add: decrypt_encrypt)
  have p: "py_float dlib (JStr (float_str dlib a)) = Some a"
    using assms(2) by (simp add: float_ok_def)
  have "get_salary lib dlib self db' = Inr a"
    using assms(3) r d p by (simp add: get_salary_def)
  with u r o show "\<exists>db'.
            update_salary lib dlib self nonce now db a = Inr db' \<and>
            get_salary lib dlib self db' = Inr a \<and>
            length (filter (\<lambda>r. sal_user_id r = uid) (salary db')) = 1 \<and>
            filter (\<lambda>r. sal_user_id r \<noteq> uid) (salary db') =
              filter (\<lambda>r. sal_user_id r \<noteq> uid) (salary db)"
    by simp
qed

lemma ideal_float_ok: "float_ok ideal_data"
  by (simp add: float_ok_def ideal_data_def)

lemma example_ledger_bound: "bound_user example_ledger = Some 1"
  by (simp add: bound_user_def example_ledger_def)

theorem salary_roundtrip_witness:
  "get_salary ideal_lib ideal_data example_ledger \<lparr>salary = [], transactions = []\<rparr> = Inr 0 \<and>
   (\<exists>db'. update_salary ideal_lib ideal_data example_ledger ''n1'' 100
             \<lparr>salary = [], transactions = []\<rparr> 1234 = Inr db' \<and>
          get_salary ideal_lib ideal_data example_ledger db' = Inr 1234)"
proof -
  note inst = salary_roundtrip [OF ideal_fernet_ok ideal_float_ok example_ledger_bound,
      of "\<lparr>salary = [], transactions = []\<rparr>"]
  have "get_salary ideal_lib ideal_data example_ledger \<lparr>salary = [], transactions = []\<rparr> = Inr 0"
    using inst [THEN conjunct1] by simp
  moreover from inst [THEN conjunct2, rule_format, of "''n1''" 100 1234]
  have "\<exists>db'. update_salary ideal_lib ideal_data example_ledger ''n1'' 100
             \<lparr>salary = [], transactions = []\<rparr> 1234 = Inr db' \<and>
          get_salary ideal_lib ideal_data example_ledger db' = Inr 1234"
    by blast
  ultimately show ?thesis by simp
qed

subsection \<open>Listing transactions\<close>

lemma decrypt_transactions_rows:
  "decrypt_transactions lib dlib am rows = Inr ts \<Longrightarrow> map t_row ts = rows"
  by (induction rows arbitrary: ts) (auto split: sum.splits option.splits)

lemma get_transactions_rows:
  assumes "get_transactions lib dlib self db start_date end_date = Inr ts"
  shows "\<exists>uid. bound_user self = Some uid \<and>
           map t_row ts = select_transactions uid start_date end_date db"
  using assms
  by (auto simp: get_transactions_def decrypt_transactions_rows split: option.splits)

text \<open>
  Claim C7, as amended. What \<^verbatim>\<open>get_transactions\<close> returns are rows of the bound user
  only, in descending order of date. When both dates are given they are exactly that
  user's rows with \<open>start_date \<le> date \<le> end_date\<close>; when either date is missing, no
  date filter is applied and they are all of that user's rows.
\<close>

theorem get_transactions_result:
  assumes "get_transactions lib dlib self db start_date end_date = Inr ts"
  shows "\<exists>uid. bound_user self = Some uid \<and>
           (\<forall>t \<in> set ts. t_user_id (t_row t) = uid) \<and>
           (\<forall>s e. start_date = Some s \<and> end_date = Some e \<longrightarrow>
              mset (map t_row ts) =
                mset (filter (\<lambda>r. t_user_id r = uid \<and> s \<le> t_date r \<and> t_date r \<le> e)
                        (transactions db))) \<and>
           (start_date = None \<or> end_date = None \<longrightarrow>
              mset (map t_row ts) = mset (filter (\<lambda>r. t_user_id r = uid) (transactions db))) \<and>
           sorted_wrt (\<lambda>a b. t_date (t_row b) \<le> t_date (t_row a)) ts"
proof -
  from get_transactions_rows [OF assms] obtain uid where
    b: "bound_user self = Some uid" and
    r: "map t_row ts = select_transactions uid start_date end_date db"
    by blast
  let ?sel = "filter (\<lambda>r. t_user_id r = uid \<and> in_range start_date end_date (t_date r))
                (transactions db)"
  have m: "mset (map t_row ts) = mset ?sel"
    using r by (simp add: select_transactions_def)
  have own: "\<forall>t \<in> set ts. t_user_id (t_row t) = uid"
  proof
    fix t assume "t \<in> set ts"
    then have "t_row t \<in> set (map t_row ts)" by simp
    then have "t_row t \<in> set ?sel"
      using m by (metis set_mset_mset)
    then show "t_user_id (t_row t) = uid" by simp
  qed
  have both: "mset (map t_row ts) =
                mset (filter (\<lambda>r. t_user_id r = uid \<and> s \<le> t_date r \<and> t_date r \<le> e)
                        (transactions db))"
    if "start_date = Some s \<and> end_date = Some e" for s e
    using m that by (simp add: in_range_def)
  have one: "mset (map t_row ts) = mset (filter (\<lambda>r. t_user_id r = uid) (transactions db))"
    if "start_date = None \<or> end_date = None"
  proof -
    have "in_range start_date end_date d" for d
      using that by (auto simp: in_range_def split: option.splits)
    with m show ?thesis by simp
  qed
  have "sorted (map (\<lambda>r. - t_date r) (map t_row ts))"
    unfolding r select_transactions_def by (rule sorted_sort_key)
  then have srt: "sorted_wrt (\<lambda>a b. t_date (t_row b) \<le> t_date (t_row a)) ts"
    by (simp add: sorted_map sorted_wrt_map)
  from b own both one srt show ?thesis by blast
qed

lemma example_listing:
  "get_transactions ideal_lib ideal_data example_ledger example_budget (Some 10) (Some 30) =
     Inr [\<lparr>t_row = \<lparr>t_id = 3, t_user_id = 1, t_date = 20,
                     t_amount_encrypted = (''k1'', ''n5'', ''111''), t_category = ''Savings'',
                     t_description_encrypted = Some (''k1'', ''n6'', []), t_created_at = 300\<rparr>,
           amount = 3, description = []\<rparr>]"
  by (simp add: get_transactions_def bound_user_def select_transactions_def example_budget_def
      in_range_def example_ledger_def example_manager_def decrypt_data_def ideal_lib_def ideal_data_def)

theorem get_transactions_result_witness:
  "\<exists>ts. get_transactions ideal_lib ideal_data example_ledger example_budget (Some 10) (Some 30) = Inr ts \<and>
     mset (map t_row ts) =
       mset (filter (\<lambda>r. t_user_id r = 1 \<and> 10 \<le> t_date r \<and> t_date r \<le> 30)
               (transactions example_budget)) \<and>
     sorted_wrt (\<lambda>a b. t_date (t_row b) \<le> t_date (t_row a)) ts"
proof -
  from get_transactions_result [OF example_listing] example_ledger_bound
  show ?thesis
    using example_listing by auto
qed

text \<open>
  Claim C7 as stated fails: with only a start date, day 10, the listing of user 1 still
  holds the transaction of day 5; with only an end date, day 10, it still holds the
  transaction of day 20.
\<close>

theorem get_transactions_one_date_counterexample:
  "map_sum id (map (t_date \<circ> t_row))
     (get_transactions ideal_lib ideal_data example_ledger example_budget (Some 10) None) =
     Inr [20, 5] \<and>
   map_sum id (map (t_date \<circ> t_row))
     (get_transactions ideal_lib ideal_data example_ledger example_budget None (Some 10)) =
     Inr [20, 5]"
  by (simp add: get_transactions_def bound_user_def select_transactions_def example_budget_def
      in_range_def example_ledger_def example_manager_def decrypt_data_def ideal_lib_def ideal_data_def)

subsection \<open>Import of a backup\<close>

lemma add_transaction_row:
  assumes "add_transaction lib dlib self nonce1 nonce2 now db d a cat desc = Inr db'"
  shows "\<exists>uid row plain. bound_user self = Some uid \<and> desc = JStr plain \<and>
           transactions db' = transactions db @ [row] \<and> salary db' = salary db \<and>
           t_user_id row = uid \<and> t_date row = d \<and>
           t_amount_encrypted row =
             encrypt_data lib (auth_manager self) nonce1 (float_str dlib a) \<and>
           t_description_encrypted row =
             Some (encrypt_data lib (auth_manager self) nonce2 plain)"
  using assms
  by (auto simp: add_transaction_def Let_def split: option.splits json.splits)

lemma add_transaction_encrypted_row:
  assumes "add_transaction lib dlib self nonce1 nonce2 now db d a cat desc = Inr db'"
  shows "\<exists>row. transactions db' = transactions db @ [row] \<and> salary db' = salary db \<and>
           Some (t_user_id row) = bound_user self \<and>
           encrypted_row lib dlib (encryption_key (auth_manager self)) row"
proof -
  from add_transaction_row [OF assms] obtain uid row plain where
    "bound_user self = Some uid" "transactions db' = transactions db @ [row]"
    "salary db' = salary db" "t_user_id row = uid"
    "t_amount_encrypted row = encrypt_data lib (auth_manager self) nonce1 (float_str dlib a)"
    "t_description_encrypted row = Some (encrypt_data lib (auth_manager self) nonce2 plain)"
    by blast
  then show ?thesis
    unfolding encrypted_row_def encrypt_data_def by auto
qed

lemma import_transactions_rows:
  assumes "import_transactions lib dlib self rnd clock k db items = (ok, db')"
  shows "\<exists>rows. transactions db' = transactions db @ rows \<and> salary db' = salary db \<and>
           (\<forall>r \<in> set rows. Some (t_user_id r) = bound_user self \<and>
              encrypted_row lib dlib (encryption_key (auth_manager self)) r) \<and>
           (ok \<longrightarrow> length rows = length items)"
  using assms
proof (induction items arbitrary: k db)
  case Nil
  then show ?case by simp
next
  case (Cons item rest)
  show ?case
  proof (cases "\<exists>ds d av a cat desc db1.
      json_get item ''date'' = Some (JStr ds) \<and> strptime_date dlib ds = Some d \<and>
      json_get item ''amount'' = Some av \<and> py_float dlib av = Some a \<and>
      json_get item ''category'' = Some cat \<and> json_get item ''description'' = Some desc \<and>
      add_transaction lib dlib self (rnd (2 * k + 1)) (rnd (2 * k + 2)) (clock (k + 1)) db
        d a cat desc = Inr db1")
    case True
    then obtain ds d av a cat desc db1 where
      s: "json_get item ''date'' = Some (JStr ds)" "strptime_date dlib ds = Some d"
        "json_get item ''amount'' = Some av" "py_float dlib av = Some a"
        "json_get item ''category'' = Some cat" "json_get item ''description'' = Some desc" and
      add: "add_transaction lib dlib self (rnd (2 * k + 1)) (rnd (2 * k + 2)) (clock (k + 1)) db
        d a cat desc = Inr db1"
      by blast
    from s add Cons.prems
    have "import_transactions lib dlib self rnd clock (Suc k) db1 rest = (ok, db')"
      by simp
    from Cons.IH [OF this] obtain rows where
      r: "transactions db' = transactions db1 @ rows" "salary db' = salary db1"
        "\<forall>r \<in> set rows. Some (t_user_id r) = bound_user self \<and>
              encrypted_row lib dlib (encryption_key (auth_manager self)) r"
        "ok \<longrightarrow> length rows = length rest"
      by blast
    from add_transaction_encrypted_row [OF add] obtain row where
      w: "transactions db1 = transactions db @ [row]" "salary db1 = salary db"
        "Some (t_user_id row) = bound_user self"
        "encrypted_row lib dlib (encryption_key (auth_manager self)) row"
      by blast
    from r w show ?thesis
      by (intro exI [of _ "row # rows"]) simp
  next
    case False
    with Cons.prems have "ok = False \<and> db' = db"
      by (auto split: option.splits json.splits sum.splits)
    then show ?thesis by simp
  qed
qed

lemma import_salary_rows:
  assumes "import_salary lib dlib self rnd clock db sal = Some db'"
  shows "transactions db' = transactions db"
  using assms
  by (auto simp: import_salary_def update_salary_def Let_def
      split: if_splits option.splits sum.splits)

lemma import_database_stages:
  assumes "bound_user self = Some uid"
    and "import_database lib dlib self rnd clock backups db path = Inr (ok, db')"
  shows "(ok = False \<and> db' = db) \<or>
         (\<exists>blob plain data.
            backups path = Some blob \<and>
            decrypt_data lib (auth_manager self) blob = Inr plain \<and>
            json_loads dlib plain = Some data \<and>
            ((ok = False \<and> (\<exists>rows. transactions db' =
                 transactions (delete_user_data uid db) @ rows \<and>
                 (\<forall>r \<in> set rows. Some (t_user_id r) = bound_user self \<and>
                    encrypted_row lib dlib (encryption_key (auth_manager self)) r))) \<or>
             (\<exists>sal db2 txs items rows.
                json_get data ''salary'' = Some sal \<and>
                import_salary lib dlib self rnd clock (delete_user_data uid db) sal = Some db2 \<and>
                json_get data ''transactions'' = Some txs \<and> json_iter txs = Some items \<and>
                transactions db' = transactions (delete_user_data uid db) @ rows \<and>
                (\<forall>r \<in> set rows. Some (t_user_id r) = bound_user self \<and>
                    encrypted_row lib dlib (encryption_key (auth_manager self)) r) \<and>
                (ok \<longrightarrow> length rows = length items))))"
proof (cases "backups path")
  case None
  with assms show ?thesis by (simp add: import_database_def)
next
  case (Some blob)
  show ?thesis
  proof (cases "decrypt_data lib (auth_manager self) blob")
    case (Inl e)
    with assms Some show ?thesis by (simp add: import_database_def)
  next
    case (Inr plain)
    show ?thesis
    proof (cases "json_loads dlib plain")
      case None
      with assms Some Inr show ?thesis by (simp add: import_database_def)
    next
      case data: (Some data)
      let ?db1 = "delete_user_data uid db"
      show ?thesis
      proof (cases "json_get data ''salary''")
        case None
        with assms Some Inr data have "ok = False \<and> db' = ?db1"
          by (simp add: import_database_def Let_def)
        with Some Inr data show ?thesis by simp
      next
        case sal: (Some sal)
        show ?thesis
        proof (cases "import_salary lib dlib self rnd clock ?db1 sal")
          case None
          with assms Some Inr data sal have "ok = False \<and> db' = ?db1"
            by (simp add: import_database_def Let_def)
          with Some Inr data show ?thesis by simp
        next
          case db2: (Some db2)
          have t2: "transactions db2 = transactions ?db1"
            using import_salary_rows [OF db2] .
          show ?thesis
          proof (cases "json_get data ''transactions''")
            case None
            with assms Some Inr data sal db2 have "ok = False \<and> db' = db2"
              by (simp add: import_database_def Let_def)
            with Some Inr data t2 show ?thesis by simp
          next
            case txs: (Some txs)
            show ?thesis
            proof (cases "json_iter txs")
              case None
              with assms Some Inr data sal db2 txs have "ok = False \<and> db' = db2"
                by (simp add: import_database_def Let_def)
              with Some Inr data t2 show ?thesis by simp
            next
              case items: (Some items)
              with assms Some Inr data sal db2 txs
              have "import_transactions lib dlib self rnd clock 0 db2 items = (ok, db')"
                by (simp add: import_database_def Let_def)
              from import_transactions_rows [OF this] obtain rows where
                "transactions db' = transactions db2 @ rows"
                "\<forall>r \<in> set rows. Some (t_user_id r) = bound_user self \<and>
                    encrypted_row lib dlib (encryption_key (auth_manager self)) r"
                "ok \<longrightarrow> length rows = length items"
                by blast
              with Some Inr data sal db2 txs items t2 show ?thesis
                by auto
            qed
          qed
        qed
      qed
    qed
  qed
qed







subsection \<open>Encrypted descriptions\<close>

lemma update_salary_transactions:
  "update_salary lib dlib self nonce now db a = Inr db' \<Longrightarrow> transactions db' = transactions db"
  by (auto simp: update_salary_def Let_def split: option.splits)

lemma import_database_bound:
  "import_database lib dlib self rnd clock backups db path = Inr res \<Longrightarrow>
   \<exists>uid. bound_user self = Some uid"
  by (auto simp: import_database_def split: option.splits)

lemma ledger_state_encrypted:
  assumes "ledger_state lib dlib key db"
  shows "\<forall>r \<in> set (transactions db). encrypted_row lib dlib key r"
  using assms
proof (induction rule: ledger_state.induct)
  case ls_init
  show ?case by simp
next
  case (ls_salary db self nonce now a db')
  then show ?case by (simp add: update_salary_transactions)
next
  case (ls_add db self nonce1 nonce2 now d a cat desc db')
  from add_transaction_encrypted_row [OF ls_add.hyps(3)] ls_add.hyps(2) ls_add.IH
  show ?case by auto
next
  case (ls_import db self rnd clock backups path ok db')
  from import_database_bound [OF ls_import.hyps(3)] obtain uid where
    b: "bound_user self = Some uid" ..
  have old: "\<forall>r \<in> set (transactions (delete_user_data uid db)). encrypted_row lib dlib key r"
    using ls_import.IH by (simp add: delete_user_data_def)
  from import_database_stages [OF b ls_import.hyps(3)]
  have "db' = db \<or> (\<exists>rows. transactions db' = transactions (delete_user_data uid db) @ rows \<and>
           (\<forall>r \<in> set rows. encrypted_row lib dlib (encryption_key (auth_manager self)) r))"
    by blast
  with ls_import.IH ls_import.hyps(2) old show ?case by auto
qed

lemma decrypt_transactions_total:
  assumes "fernet_ok lib" and "float_ok dlib"
    and "\<forall>r \<in> set rows. encrypted_row lib dlib (encryption_key am) r"
  shows "\<exists>ts. decrypt_transactions lib dlib am rows = Inr ts"
  using assms(3)
proof (induction rows)
  case Nil
  show ?case by simp
next
  case (Cons row rows)
  from Cons.prems obtain n a m d where
    am: "t_amount_encrypted row = fernet_encrypt lib (encryption_key am) n (float_str dlib a)" and
    de: "t_description_encrypted row = Some (fernet_encrypt lib (encryption_key am) m d)"
    by (auto simp: encrypted_row_def)
  have 1: "decrypt_data lib am (t_amount_encrypted row) = Inr (float_str dlib a)"
    and 2: "decrypt_data lib am (fernet_encrypt lib (encryption_key am) m d) = Inr d"
    using assms(1) am by (simp_all add: decrypt_data_def fernet_ok_def)
  have 3: "py_float dlib (JStr (float_str dlib a)) = Some a"
    using assms(2) by (simp add: float_ok_def)
  from Cons obtain ts where "decrypt_transactions lib dlib am rows = Inr ts"
    by auto
  with 1 2 3 de show ?case by simp
qed

text \<open>
  Claim C10. In every budget database built by the operations of \<^verbatim>\<open>BudgetDatabase\<close>
  under one key (salary updates, added transactions, imports, complete or not), every
  transaction row holds a description that is not null and is a ciphertext made under
  that key; a transaction added with the default description holds the encryption of
  the empty string; and, Fernet and the printing of numbers keeping their contracts,
  \<^verbatim>\<open>get_transactions\<close> of any bound instance with that key returns a list: no row makes
  the decryption of its description fail.
\<close>

theorem descriptions_never_null:
  assumes "ledger_state lib dlib key db"
  shows "(\<forall>r \<in> set (transactions db).
            \<exists>n d. t_description_encrypted r = Some (fernet_encrypt lib key n d)) \<and>
         (\<forall>self n1 n2 now d a cat db'.
            add_transaction lib dlib self n1 n2 now db d a cat (JStr []) = Inr db' \<longrightarrow>
            t_description_encrypted (last (transactions db')) =
              Some (encrypt_data lib (auth_manager self) n2 [])) \<and>
         (fernet_ok lib \<and> float_ok dlib \<longrightarrow>
            (\<forall>self start_date end_date.
               encryption_key (auth_manager self) = key \<and> bound_user self \<noteq> None \<longrightarrow>
               (\<exists>ts. get_transactions lib dlib self db start_date end_date = Inr ts)))"
proof (intro conjI allI impI ballI)
  fix r assume "r \<in> set (transactions db)"
  with ledger_state_encrypted [OF assms]
  show "\<exists>n d. t_description_encrypted r = Some (fernet_encrypt lib key n d)"
    by (simp add: encrypted_row_def)
next
  fix self n1 n2 now d a cat db'
  assume "add_transaction lib dlib self n1 n2 now db d a cat (JStr []) = Inr db'"
  from add_transaction_row [OF this]
  show "t_description_encrypted (last (transactions db')) =
          Some (encrypt_data lib (auth_manager self) n2 [])"
    by auto
next
  fix self start_date end_date
  assume ok: "fernet_ok lib \<and> float_ok dlib"
    and self: "encryption_key (auth_manager self) = key \<and> bound_user self \<noteq> None"
  then obtain uid where b: "bound_user self = Some uid" by auto
  have "set (select_transactions uid start_date end_date db) \<subseteq> set (transactions db)"
    by (auto simp: select_transactions_def)
  with ledger_state_encrypted [OF assms] self
  have "\<forall>r \<in> set (select_transactions uid start_date end_date db).
          encrypted_row lib dlib (encryption_key (auth_manager self)) r"
    by auto
  from decrypt_transactions_total [OF ok [THEN conjunct1] ok [THEN conjunct2] this] b
  show "\<exists>ts. get_transactions lib dlib self db start_date end_date = Inr ts"
    by (simp add: get_transactions_def)
qed

theorem descriptions_never_null_witness:
  "\<exists>db1.
     add_transaction ideal_lib ideal_data example_ledger ''n1'' ''n2'' 100
       \<lparr>salary = [], transactions = []\<rparr> 5 11 (JStr ''Needs'') (JStr []) = Inr db1 \<and>
     (\<exists>n d. t_description_encrypted (last (transactions db1)) =
        Some (fernet_encrypt ideal_lib ''k1'' n d)) \<and>
     (\<exists>ts. get_transactions ideal_lib ideal_data example_ledger db1 None None = Inr ts)"
proof -
  have "\<exists>db1. add_transaction ideal_lib ideal_data example_ledger ''n1'' ''n2'' 100
       \<lparr>salary = [], transactions = []\<rparr> 5 11 (JStr ''Needs'') (JStr []) = Inr db1 \<and>
       transactions db1 \<noteq> []"
    by (simp add: add_transaction_def example_ledger_bound ideal_data_def Let_def)
  then obtain db1 where
    a: "add_transaction ideal_lib ideal_data example_ledger ''n1'' ''n2'' 100
       \<lparr>salary = [], transactions = []\<rparr> 5 11 (JStr ''Needs'') (JStr []) = Inr db1" and
    ne: "transactions db1 \<noteq> []"
    by blast
  have k: "encryption_key (auth_manager example_ledger) = ''k1''"
    by (simp add: example_ledger_def example_manager_def)
  have st: "ledger_state ideal_lib ideal_data ''k1'' db1"
    by (rule ls_add [OF ls_init k a])
  note inst = descriptions_never_null [OF st]
  have l: "last (transactions db1) \<in> set (transactions db1)"
    using ne by simp
  from inst [THEN conjunct1, rule_format, OF l]
  have 1: "\<exists>n d. t_description_encrypted (last (transactions db1)) =
        Some (fernet_encrypt ideal_lib ''k1'' n d)" .
  have "encryption_key (auth_manager example_ledger) = ''k1'' \<and> bound_user example_ledger \<noteq> None"
    using k example_ledger_bound by simp
  with inst [THEN conjunct2, THEN conjunct2] ideal_fernet_ok ideal_float_ok
  have 2: "\<exists>ts. get_transactions ideal_lib ideal_data example_ledger db1 None None = Inr ts"
    by blast
  from a 1 2 show ?thesis by blast
qed

end
